theory Spec2Isabelle
  imports Complex_Main "HOL-Library.Sublist"
begin

section \<open>Errors and the bot record\<close>

text \<open>
  Modelled from the spec: the sentinel error values (\<open>ErrBotInactive\<close>, \<open>ErrBotLoggedOut\<close>,
  \<open>ErrNotLogged\<close>, the five fatal authentication errors and \<open>ErrFailedExecuteCallback\<close>) are
  declared outside \<open>ogame.go\<close>. The spec's taxonomy lists them as separate errors, and the code
  compares them with \<open>==\<close>, so each sentinel is one constructor. \<open>ErrNew msg\<close> is a value made
  on the spot by \<open>errors.New(msg)\<close>, \<open>ErrOther msg\<close> any other error (transport, JSON), and
  \<open>Wrap err marker\<close> is \<open>errors.Wrap(err, marker.Error())\<close>: a new value that carries
  \<open>err\<close> as its cause and the marker's text as its message.
\<close>

datatype error =
    ErrBotInactive
  | ErrBotLoggedOut
  | ErrNotLogged
  | ErrAccountNotFound
  | ErrAccountBlocked
  | ErrBadCredentials
  | ErrOTPRequired
  | ErrOTPInvalid
  | ErrFailedExecuteCallback
  | ErrNew string
  | ErrOther string
  | Wrap error error

type_synonym bytes = string

text \<open>
  \<open>url.Values\<close> is a map from a key to a list of values; \<open>Get\<close> gives the first value of
  the key, or the empty string, and \<open>Set\<close> replaces the list by a single value.
\<close>

type_synonym urlValues = "string \<rightharpoonup> string list"

definition Get :: "urlValues \<Rightarrow> string \<Rightarrow> string" where
  "Get vals key = (case vals key of None \<Rightarrow> [] | Some [] \<Rightarrow> [] | Some (v # _) \<Rightarrow> v)"

definition Set :: "urlValues \<Rightarrow> string \<Rightarrow> string \<Rightarrow> urlValues" where
  "Set vals key v = vals(key \<mapsto> [v])"

subsection \<open>Values decoded by \<open>encoding/json\<close> and the packets of the event stream\<close>

text \<open>
  What \<open>json.Unmarshal\<close> puts into an \<open>any\<close>: \<open>nil\<close>, a bool, a \<open>float64\<close>, a string,
  a \<open>[]any\<close> or a \<open>map[string]any\<close>. A decoded number is a finite \<open>float64\<close>, kept here as
  the real number it denotes. A map is an association list read with \<open>map_of\<close>.
\<close>

datatype json = JNull | JBool bool | JNum real | JStr string | JArr "json list"
  | JObj "(string \<times> json) list"

datatype player = Player (ID: int) (Name: string) (Link: string)

datatype packet =
    PckString string
  | AuctioneerNewBid (Sum: int) (Price: int) (Bids: int) (AuctionID: int) (BidPlayer: player)
  | AuctioneerNewAuction int int
  | AuctioneerAuctionFinished int int int string player
  | AuctioneerTimeRemaining int
  | AuctioneerNextAuction int

record ChatMsg =
  SenderID :: int
  SenderName :: string
  AssociationID :: int
  Text :: string
  MsgID :: int
  Date :: int

subsection \<open>The bot\<close>

text \<open>
  The fields of \<open>OGame\<close> that the modelled functions read or write. The atomics hold 0 or 1
  and are compared with 1, as in the source. \<open>mutex\<close> is the embedded \<open>sync.Mutex\<close>
  (held or free). \<open>ws\<close> is the websocket, seen as the list of the frames written to it so
  far. \<open>world\<close> is everything else the program can touch: the remote server, the clock,
  the caches, the loggers and the state the registered callbacks work on; a callback is a
  function on the world.
\<close>

record 'w bot =
  isEnabledAtom :: int
  isLoggedInAtom :: int
  isConnectedAtom :: int
  lockedAtom :: int
  mutex :: bool
  state :: string
  stateChangeCallbacks :: "(bool \<Rightarrow> string \<Rightarrow> 'w \<Rightarrow> 'w) list"
  ajaxChatToken :: string
  ogameSession :: string
  sessionChatCounter :: int
  serverURL :: string
  ws :: "string list"
  chatCallbacks :: "(ChatMsg \<Rightarrow> 'w \<Rightarrow> 'w) list"
  auctioneerCallbacks :: "(packet \<Rightarrow> 'w \<Rightarrow> 'w) list"
  world :: 'w

definition IsEnabled :: "'w bot \<Rightarrow> bool" where
  "IsEnabled b = (isEnabledAtom b = 1)"

definition IsLoggedIn :: "'w bot \<Rightarrow> bool" where
  "IsLoggedIn b = (isLoggedInAtom b = 1)"

definition IsConnected :: "'w bot \<Rightarrow> bool" where
  "IsConnected b = (isConnectedAtom b = 1)"

subsection \<open>Page names\<close>

text \<open>
  The page-name constants are declared outside \<open>ogame.go\<close>. Each one the modelled
  functions mention is a constructor here, and the functions take the naming
  \<open>N :: pageName \<Rightarrow> string\<close>, which gives every constant its text, as a parameter.
\<close>

datatype pageName =
    OverviewPageName | TraderOverviewPageName | ResearchPageName | ShipyardPageName
  | GalaxyPageName | AlliancePageName | PremiumPageName | ShopPageName | RewardsPageName
  | ResourceSettingsPageName | MovementPageName | HighscorePageName | BuddiesPageName
  | PreferencesPageName | MessagesPageName | ChatPageName | DefensesPageName
  | SuppliesPageName | FacilitiesPageName | FleetdispatchPageName
  | LogoutPageName
  | FetchEventboxAjaxPageName | FetchResourcesAjaxPageName | GalaxyContentAjaxPageName
  | EventListAjaxPageName | AjaxChatAjaxPageName | NoticesAjaxPageName
  | RepairlayerAjaxPageName | TechtreeAjaxPageName | PhalanxAjaxPageName
  | ShareReportOverlayAjaxPageName | JumpgatelayerAjaxPageName | FederationlayerAjaxPageName
  | UnionchangeAjaxPageName | ChangenickAjaxPageName | PlanetlayerAjaxPageName
  | TraderlayerAjaxPageName | PlanetRenameAjaxPageName | RightmenuAjaxPageName
  | AllianceOverviewAjaxPageName | SupportAjaxPageName | BuffActivationAjaxPageName
  | AuctioneerAjaxPageName | HighscoreContentAjaxPageName

subsection \<open>The collaborators\<close>

text \<open>
  What the modelled functions call and \<open>ogame.go\<close> does not define.
  \<^item> \<open>ctxWait n b\<close> is the \<open>select\<close> on the timer of \<open>n\<close> seconds and on
    \<open>b.ctx.Done()\<close>: \<open>True\<close> when the cancellation fires first. Other goroutines run
    meanwhile, so the bot may change.
  \<^item> \<open>wrapLoginWithExistingCookies\<close> is the re-login.
  \<^item> \<open>httpDo method url body ajax b\<close> is \<open>http.NewRequest\<close>, the headers and
    \<open>b.client.Do\<close>: an error, or the status code with what \<open>readBody\<close> gives.
  \<^item> \<open>canParseEventBox\<close>, \<open>canParseSystemInfos\<close>, \<open>unmarshalChatPostResp\<close>,
    \<open>unmarshalChatPayload\<close>, \<open>unmarshalChatMsg\<close> and \<open>jsonUnmarshal\<close> are
    \<open>json.Unmarshal\<close> into the respective target (for \<open>jsonUnmarshal\<close> an \<open>any\<close>);
    \<open>Inl\<close> or \<open>None\<close> is a decoding error.
  \<^item> \<open>hasCachedCelestial\<close>, \<open>cacheFullPageInfo\<close>, \<open>cachePreferences\<close> are the cache
    and the extractor; \<open>Encode\<close> is \<open>url.Values.Encode\<close>; \<open>FI64\<close> and
    \<open>DoParseI64\<close> are the helpers of that name; \<open>findText html sel\<close> is goquery's
    \<open>doc.Find(sel).Text()\<close>; \<open>f64Overflow\<close> is what \<open>int64(f)\<close> gives when \<open>f\<close>
    is outside the range of \<open>int64\<close>, which Go leaves to the implementation.
  \<^item> \<open>N\<close> is the naming of the page-name constants.
\<close>

record 'w env =
  ctxWait :: "int \<Rightarrow> 'w bot \<Rightarrow> bool \<times> 'w bot"
  wrapLoginWithExistingCookies :: "'w bot \<Rightarrow> error option \<times> 'w bot"
  httpDo :: "string \<Rightarrow> string \<Rightarrow> string option \<Rightarrow> bool \<Rightarrow> 'w bot
               \<Rightarrow> (error + int \<times> (error + bytes)) \<times> 'w bot"
  canParseEventBox :: "bytes \<Rightarrow> bool"
  canParseSystemInfos :: "bytes \<Rightarrow> bool"
  unmarshalChatPostResp :: "bytes \<Rightarrow> string + string"
  unmarshalChatPayload :: "bytes \<Rightarrow> string + ChatMsg list"
  unmarshalChatMsg :: "bytes \<Rightarrow> string + ChatMsg"
  jsonUnmarshal :: "bytes \<Rightarrow> json option"
  hasCachedCelestial :: "int \<Rightarrow> 'w bot \<Rightarrow> bool"
  cacheFullPageInfo :: "bytes \<Rightarrow> 'w bot \<Rightarrow> 'w bot"
  cachePreferences :: "bytes \<Rightarrow> 'w bot \<Rightarrow> 'w bot"
  Encode :: "urlValues \<Rightarrow> string"
  FI64 :: "int \<Rightarrow> string"
  DoParseI64 :: "string \<Rightarrow> int"
  findText :: "string \<Rightarrow> string \<Rightarrow> string"
  f64Overflow :: "real \<Rightarrow> int"
  N :: "pageName \<Rightarrow> string"

section \<open>Regular expressions and byte strings\<close>

text \<open>
  The regular expressions of the source are sequences of literal text and of \<open>c+\<close> for a
  character class \<open>c\<close>: \<open>\d\<close>, \<open>\w\<close> (ASCII only in Go) and \<open>[^"]\<close>.
  \<open>matchHere\<close> says whether the expression matches at the start of the text,
  \<open>matchAnywhere\<close> whether it matches somewhere (\<open>Match\<close>, \<open>MatchString\<close>, and
  \<open>FindSubmatch\<close> giving a result).
\<close>

datatype cls = Digit | Word | NotQuote

definition inClass :: "cls \<Rightarrow> char \<Rightarrow> bool" where
  \<open>inClass k c = (case k of
      Digit \<Rightarrow> c \<in> set ''0123456789''
    | Word \<Rightarrow> c \<in> set ''0123456789ABCDEFGHIJKLMNOPQRSTUVWXYZ_abcdefghijklmnopqrstuvwxyz''
    | NotQuote \<Rightarrow> c \<noteq> CHR 0x22)\<close>

datatype rx = Lit string | Plus cls

fun matchHere :: "rx list \<Rightarrow> string \<Rightarrow> bool" where
  "matchHere [] s = True"
| "matchHere (Lit l # rs) s = (prefix l s \<and> matchHere rs (drop (length l) s))"
| "matchHere (Plus k # rs) [] = False"
| "matchHere (Plus k # rs) (c # s) =
     (inClass k c \<and> (matchHere rs s \<or> matchHere (Plus k # rs) s))"

fun matchAnywhere :: "rx list \<Rightarrow> string \<Rightarrow> bool" where
  "matchAnywhere rs [] = matchHere rs []"
| "matchAnywhere rs (c # s) = (matchHere rs (c # s) \<or> matchAnywhere rs s)"

definition Contains :: "string \<Rightarrow> string \<Rightarrow> bool" where
  "Contains s sub = matchAnywhere [Lit sub] s"

definition HasPrefix :: "string \<Rightarrow> string \<Rightarrow> bool" where
  "HasPrefix s p = prefix p s"

definition TrimPrefix :: "string \<Rightarrow> string \<Rightarrow> string" where
  "TrimPrefix s p = (if prefix p s then drop (length p) s else s)"

definition TrimSuffix :: "string \<Rightarrow> string \<Rightarrow> string" where
  "TrimSuffix s p = (if suffix p s then take (length s - length p) s else s)"

definition Trim :: "string \<Rightarrow> string \<Rightarrow> string" where
  "Trim s cutset =
     rev (dropWhile (\<lambda>c. c \<in> set cutset) (rev (dropWhile (\<lambda>c. c \<in> set cutset) s)))"

text \<open>\<open>regexp.MustCompile(`\d+`).FindString\<close>: the first longest run of digits.\<close>

definition findDigits :: "string \<Rightarrow> string" where
  "findDigits s = takeWhile (inClass Digit) (dropWhile (\<lambda>c. \<not> inClass Digit c) s)"

section \<open>The request pipeline\<close>

definition isLogged :: "bytes \<Rightarrow> bool" where
  \<open>isLogged pageHTML =
     (matchAnywhere [Lit ''<meta name="ogame-session" content="'', Plus Word, Lit ''"/>''] pageHTML \<or>
      matchAnywhere [Lit ''var session = "'', Plus Word, Lit ''"''] pageHTML)\<close>

definition getPageName :: "(pageName \<Rightarrow> string) \<Rightarrow> urlValues \<Rightarrow> string" where
  "getPageName nm vals =
     (let page = Get vals ''page''; component = Get vals ''component'' in
      if page = ''ingame'' \<or>
         (page = ''componentOnly'' \<and> component = nm FetchEventboxAjaxPageName) \<or>
         (page = ''componentOnly'' \<and> component = nm EventListAjaxPageName \<and>
            Get vals ''action'' \<noteq> ''fetchEventBox'')
      then component else page)"

definition IsKnowFullPage :: "(pageName \<Rightarrow> string) \<Rightarrow> urlValues \<Rightarrow> bool" where
  "IsKnowFullPage nm vals =
     (let page = getPageName nm vals in
      page = nm OverviewPageName \<or>
      page = nm TraderOverviewPageName \<or>
      page = nm ResearchPageName \<or>
      page = nm ShipyardPageName \<or>
      page = nm GalaxyPageName \<or>
      page = nm AlliancePageName \<or>
      page = nm PremiumPageName \<or>
      page = nm ShopPageName \<or>
      page = nm RewardsPageName \<or>
      page = nm ResourceSettingsPageName \<or>
      page = nm MovementPageName \<or>
      page = nm HighscorePageName \<or>
      page = nm BuddiesPageName \<or>
      page = nm PreferencesPageName \<or>
      page = nm MessagesPageName \<or>
      page = nm ChatPageName \<or>
      page = nm DefensesPageName \<or>
      page = nm SuppliesPageName \<or>
      page = nm FacilitiesPageName \<or>
      page = nm FleetdispatchPageName)"

definition IsEmpirePage :: "urlValues \<Rightarrow> bool" where
  "IsEmpirePage vals = (Get vals ''page'' = ''standalone'' \<and> Get vals ''component'' = ''empire'')"

definition IsAjaxPage :: "(pageName \<Rightarrow> string) \<Rightarrow> urlValues \<Rightarrow> bool" where
  "IsAjaxPage nm vals =
     (let page = getPageName nm vals; ajax = Get vals ''ajax''; asJson = Get vals ''asJson'' in
      page = nm FetchEventboxAjaxPageName \<or>
      page = nm FetchResourcesAjaxPageName \<or>
      page = nm GalaxyContentAjaxPageName \<or>
      page = nm EventListAjaxPageName \<or>
      page = nm AjaxChatAjaxPageName \<or>
      page = nm NoticesAjaxPageName \<or>
      page = nm RepairlayerAjaxPageName \<or>
      page = nm TechtreeAjaxPageName \<or>
      page = nm PhalanxAjaxPageName \<or>
      page = nm ShareReportOverlayAjaxPageName \<or>
      page = nm JumpgatelayerAjaxPageName \<or>
      page = nm FederationlayerAjaxPageName \<or>
      page = nm UnionchangeAjaxPageName \<or>
      page = nm ChangenickAjaxPageName \<or>
      page = nm PlanetlayerAjaxPageName \<or>
      page = nm TraderlayerAjaxPageName \<or>
      page = nm PlanetRenameAjaxPageName \<or>
      page = nm RightmenuAjaxPageName \<or>
      page = nm AllianceOverviewAjaxPageName \<or>
      page = nm SupportAjaxPageName \<or>
      page = nm BuffActivationAjaxPageName \<or>
      page = nm AuctioneerAjaxPageName \<or>
      page = nm HighscoreContentAjaxPageName \<or>
      ajax = ''1'' \<or>
      asJson = ''1'')"

definition preRequestChecks :: "'w bot \<Rightarrow> error option" where
  "preRequestChecks b =
     (if \<not> IsEnabled b then Some ErrBotInactive
      else if \<not> IsLoggedIn b then Some ErrBotLoggedOut
      else if serverURL b = [] then Some (ErrNew ''serverURL is empty'')
      else None)"

text \<open>
  \<open>execRequest\<close> gives Go's pair of the bytes and the error. A status of 500 or more
  returns the empty bytes with the error of \<open>client.Do\<close>, which is \<open>nil\<close> at that point.
\<close>

definition execRequest ::
  "'w env \<Rightarrow> string \<Rightarrow> string \<Rightarrow> urlValues \<Rightarrow> urlValues \<Rightarrow> 'w bot \<Rightarrow> (bytes \<times> error option) \<times> 'w bot" where
  "execRequest E method finalURL payload vals b =
     (let body = (if method = ''POST'' then Some (Encode E payload) else None) in
      case httpDo E method finalURL body (IsAjaxPage (N E) vals) b of
        (Inl err, b1) \<Rightarrow> (([], Some err), b1)
      | (Inr (StatusCode, rd), b1) \<Rightarrow>
          if StatusCode \<ge> 500 then (([], None), b1)
          else (case rd of
                  Inl err \<Rightarrow> (([], Some err), b1)
                | Inr by \<Rightarrow> ((by, None), b1)))"

record options =
  DebugGalaxy :: bool
  SkipInterceptor :: bool
  SkipRetry :: bool
  ChangePlanet :: int

definition getOptions :: "(options \<Rightarrow> options) list \<Rightarrow> options" where
  "getOptions opts =
     fold (\<lambda>opt out. opt out) opts
       \<lparr>DebugGalaxy = False, SkipInterceptor = False, SkipRetry = False, ChangePlanet = 0\<rparr>"

definition setCPParam :: "'w env \<Rightarrow> 'w bot \<Rightarrow> urlValues \<Rightarrow> options \<Rightarrow> urlValues" where
  "setCPParam E b vals cfg =
     (if Get vals ''cp'' = [] \<and> ChangePlanet cfg \<noteq> 0 \<and> hasCachedCelestial E (ChangePlanet cfg) b
      then Set vals ''cp'' (FI64 E (ChangePlanet cfg)) else vals)"

definition detectLoggedOut :: "'w env \<Rightarrow> string \<Rightarrow> urlValues \<Rightarrow> bytes \<Rightarrow> bool" where
  "detectLoggedOut E page vals pageHTML =
     (if Get vals ''allianceId'' \<noteq> [] then False
      else
        (page \<noteq> N E LogoutPageName \<and> (IsKnowFullPage (N E) vals \<or> page = []) \<and>
           \<not> IsAjaxPage (N E) vals \<and> \<not> isLogged pageHTML) \<or>
        (page = N E EventListAjaxPageName \<and> \<not> Contains pageHTML ''eventListWrap'') \<or>
        (page = N E FetchEventboxAjaxPageName \<and> \<not> canParseEventBox E pageHTML) \<or>
        (page = N E GalaxyContentAjaxPageName \<and> \<not> canParseSystemInfos E pageHTML))"

definition constructFinalURL :: "'w env \<Rightarrow> 'w bot \<Rightarrow> urlValues \<Rightarrow> string" where
  "constructFinalURL E b vals =
     (let allianceID = Get vals ''allianceId'' in
      if allianceID \<noteq> [] then serverURL b @ ''/game/allianceInfo.php?allianceId='' @ allianceID
      else serverURL b @ ''/game/index.php?'' @ Encode E vals)"

definition alterPayload :: "string \<Rightarrow> 'w bot \<Rightarrow> urlValues \<Rightarrow> urlValues \<Rightarrow> urlValues" where
  "alterPayload method b vals payload =
     (if method = ''POST'' \<and> Get vals ''page'' = ''ajaxChat'' \<and> Get payload ''mode'' = ''1''
      then Set payload ''token'' (ajaxChatToken b) else payload)"

definition extractNewChatToken :: "'w env \<Rightarrow> 'w bot \<Rightarrow> bytes \<Rightarrow> error option \<times> 'w bot" where
  "extractNewChatToken E b pageHTMLBytes =
     (case unmarshalChatPostResp E pageHTMLBytes of
        Inl msg \<Rightarrow> (Some (ErrOther msg), b)
      | Inr NewToken \<Rightarrow> (None, b\<lparr>ajaxChatToken := NewToken\<rparr>))"

definition processResponseHTML ::
  "'w env \<Rightarrow> string \<Rightarrow> 'w bot \<Rightarrow> bytes \<Rightarrow> string \<Rightarrow> urlValues \<Rightarrow> urlValues \<Rightarrow> error option \<times> 'w bot" where
  "processResponseHTML E method b pageHTML page payload vals =
     (if method = ''GET'' then
        (if \<not> IsAjaxPage (N E) vals \<and> \<not> IsEmpirePage vals \<and> isLogged pageHTML
         then (None, cacheFullPageInfo E pageHTML b) else (None, b))
      else if method = ''POST'' then
        (if page = N E PreferencesPageName then (None, cachePreferences E pageHTML b)
         else if page = ''ajaxChat'' \<and> (Get payload ''mode'' = ''1'' \<or> Get payload ''mode'' = ''3'')
           then extractNewChatToken E b pageHTML
         else (None, b))
      else (None, b))"

section \<open>The retry wrapper\<close>

text \<open>
  The trace of a run: each execution of the callback with its outcome, each armed backoff
  timer with its delay in seconds, each re-login attempt with its outcome. The log lines
  (\<open>b.error\<close>) are left out.
\<close>

datatype event = Exec "error option" | Sleep int | Relogin "error option"

definition isFatalLoginErr :: "error \<Rightarrow> bool" where
  "isFatalLoginErr loginErr =
     (loginErr = ErrAccountNotFound \<or>
      loginErr = ErrAccountBlocked \<or>
      loginErr = ErrBadCredentials \<or>
      loginErr = ErrOTPRequired \<or>
      loginErr = ErrOTPInvalid)"

definition emit ::
  "event list \<Rightarrow> 'r \<times> 'c \<times> 's \<times> event list \<Rightarrow> 'r \<times> 'c \<times> 's \<times> event list" where
  "emit evs res = (case res of (r, c, s, tr) \<Rightarrow> (r, c, s, evs @ tr))"

text \<open>
  The \<open>for\<close> loop of \<open>withRetry\<close>, with the two variables it updates, \<open>maxRetry\<close> and
  \<open>retryInterval\<close>, as arguments. Both stay between 0 and 60, so Go's \<open>int\<close> is \<open>int\<close>
  here. The callback \<open>fn\<close> is a closure: \<open>c\<close> holds the variables it has captured and
  assigns. The closure \<open>retry\<close> is inlined: it waits, gives \<open>ErrBotInactive\<close> on
  cancellation, and otherwise doubles the interval up to 60.
\<close>

function withRetry_loop ::
  "'w env \<Rightarrow> ('c \<Rightarrow> 'w bot \<Rightarrow> error option \<times> 'c \<times> 'w bot) \<Rightarrow> int \<Rightarrow> int \<Rightarrow> 'c \<Rightarrow> 'w bot
     \<Rightarrow> error option \<times> 'c \<times> 'w bot \<times> event list" where
  "withRetry_loop E fn maxRetry retryInterval c b =
     (let (res, c1, b1) = fn c b in
      case res of
        None \<Rightarrow> (None, c1, b1, [Exec None])
      | Some err \<Rightarrow>
          if \<not> IsEnabled b1 then (Some ErrBotInactive, c1, b1, [Exec (Some err)])
          else if \<not> IsLoggedIn b1 then (Some ErrBotLoggedOut, c1, b1, [Exec (Some err)])
          else if maxRetry - 1 \<le> 0
            then (Some (Wrap err ErrFailedExecuteCallback), c1, b1, [Exec (Some err)])
          else
            (let (cancelled, b2) = ctxWait E retryInterval b1 in
             if cancelled
             then (Some ErrBotInactive, c1, b2, [Exec (Some err), Sleep retryInterval])
             else
               (let retryInterval' = (if retryInterval * 2 > 60 then 60 else retryInterval * 2) in
                if err = ErrNotLogged then
                  (let (loginRes, b3) = wrapLoginWithExistingCookies E b2 in
                   if (case loginRes of None \<Rightarrow> False | Some loginErr \<Rightarrow> isFatalLoginErr loginErr)
                   then (loginRes, c1, b3, [Exec (Some err), Sleep retryInterval, Relogin loginRes])
                   else emit [Exec (Some err), Sleep retryInterval, Relogin loginRes]
                          (withRetry_loop E fn (maxRetry - 1) retryInterval' c1 b3))
                else emit [Exec (Some err), Sleep retryInterval]
                       (withRetry_loop E fn (maxRetry - 1) retryInterval' c1 b2))))"
  by pat_completeness auto
termination
  by (relation "measure (\<lambda>(E, fn, maxRetry, retryInterval, c, b). nat maxRetry)") auto

definition withRetry ::
  "'w env \<Rightarrow> ('c \<Rightarrow> 'w bot \<Rightarrow> error option \<times> 'c \<times> 'w bot) \<Rightarrow> 'c \<Rightarrow> 'w bot
     \<Rightarrow> error option \<times> 'c \<times> 'w bot \<times> event list" where
  "withRetry E fn c b = withRetry_loop E fn 10 1 c b"

definition withoutRetry ::
  "'w env \<Rightarrow> ('c \<Rightarrow> 'w bot \<Rightarrow> error option \<times> 'c \<times> 'w bot) \<Rightarrow> 'c \<Rightarrow> 'w bot
     \<Rightarrow> error option \<times> 'c \<times> 'w bot \<times> event list" where
  "withoutRetry E fn c b = (let (res, c1, b1) = fn c b in (res, c1, b1, [Exec res]))"

definition retryPolicyFromConfig ::
  "options \<Rightarrow> 'w env \<Rightarrow> ('c \<Rightarrow> 'w bot \<Rightarrow> error option \<times> 'c \<times> 'w bot) \<Rightarrow> 'c \<Rightarrow> 'w bot
     \<Rightarrow> error option \<times> 'c \<times> 'w bot \<times> event list" where
  "retryPolicyFromConfig cfg = (if SkipRetry cfg then withoutRetry else withRetry)"

definition execs :: "event list \<Rightarrow> nat" where
  "execs tr = length (filter (\<lambda>e. case e of Exec _ \<Rightarrow> True | _ \<Rightarrow> False) tr)"

definition relogins :: "event list \<Rightarrow> nat" where
  "relogins tr = length (filter (\<lambda>e. case e of Relogin _ \<Rightarrow> True | _ \<Rightarrow> False) tr)"


section \<open>Fetching a page\<close>

text \<open>
  The closure \<open>clb\<close> of \<open>pageContent\<close>: one request, then the check of the response.
  The variable it captures and assigns is \<open>pageHTMLBytes\<close>. (It also sets and resets the
  redirect policy of the HTTP client, which belongs to the world.)
\<close>

definition clb ::
  "'w env \<Rightarrow> string \<Rightarrow> string \<Rightarrow> urlValues \<Rightarrow> urlValues \<Rightarrow> string \<Rightarrow> bytes \<Rightarrow> 'w bot
     \<Rightarrow> error option \<times> bytes \<times> 'w bot" where
  "clb E method finalURL payload vals page pageHTMLBytes b =
     (case execRequest E method finalURL payload vals b of
        ((by, Some err), b1) \<Rightarrow> (Some err, by, b1)
      | ((by, None), b1) \<Rightarrow>
          if detectLoggedOut E page vals by
          then (Some ErrNotLogged, by, b1\<lparr>isConnectedAtom := 0\<rparr>)
          else (None, by, b1))"

text \<open>
  \<open>pageContent\<close> gives Go's pair of the bytes and the error, the bot, the values after
  \<open>setCPParam\<close> (a \<open>url.Values\<close> is shared with the caller) and the trace of the retry
  policy. The interceptors run in a goroutine of their own after the return and are left
  out.
\<close>

definition pageContent ::
  "'w env \<Rightarrow> string \<Rightarrow> urlValues \<Rightarrow> urlValues \<Rightarrow> (options \<Rightarrow> options) list \<Rightarrow> 'w bot
     \<Rightarrow> (bytes \<times> error option) \<times> 'w bot \<times> event list" where
  "pageContent E method vals payload opts b =
     (let cfg = getOptions opts in
      case preRequestChecks b of
        Some err \<Rightarrow> (([], Some err), b, [])
      | None \<Rightarrow>
          (let vals1 = setCPParam E b vals cfg;
               payload1 = alterPayload method b vals1 payload;
               finalURL = constructFinalURL E b vals1;
               page = getPageName (N E) vals1;
               (res, pageHTMLBytes, b1, tr) =
                  retryPolicyFromConfig cfg E (clb E method finalURL payload1 vals1 page) [] b
           in case res of
                Some err \<Rightarrow> (([], Some err), b1, tr)
              | None \<Rightarrow>
                  (case processResponseHTML E method b1 pageHTMLBytes page payload1 vals1 of
                     (Some err, b2) \<Rightarrow> (([], Some err), b2, tr)
                   | (None, b2) \<Rightarrow> ((pageHTMLBytes, None), b2, tr))))"


definition postPageContent ::
  "'w env \<Rightarrow> urlValues \<Rightarrow> urlValues \<Rightarrow> (options \<Rightarrow> options) list \<Rightarrow> 'w bot
     \<Rightarrow> (bytes \<times> error option) \<times> 'w bot \<times> event list" where
  "postPageContent E vals payload opts b = pageContent E ''POST'' vals payload opts b"



definition SkipRetryOpt :: "options \<Rightarrow> options" where
  "SkipRetryOpt opt = opt\<lparr>SkipRetry := True\<rparr>"

section \<open>The lock state\<close>

text \<open>
  A call that does not return normally: \<open>Blocked\<close> is \<open>b.Lock()\<close> on a mutex that is
  held (nothing else runs in this model, so the call waits for ever), \<open>Crashed\<close> a fatal
  runtime error or a panic.
\<close>

datatype fault = Blocked | Crashed string

definition stateChanged :: "bool \<Rightarrow> string \<Rightarrow> 'w bot \<Rightarrow> 'w bot" where
  "stateChanged locked actor b =
     b\<lparr>world := foldl (\<lambda>w cb. cb locked actor w) (world b) (stateChangeCallbacks b)\<rparr>"

definition botLock :: "string \<Rightarrow> 'w bot \<Rightarrow> fault + 'w bot" where
  "botLock lockedBy b =
     (if mutex b then Inl Blocked
      else
        (let b1 = b\<lparr>mutex := True\<rparr> in
         if lockedAtom b1 = 0
         then Inr (stateChanged True lockedBy (b1\<lparr>lockedAtom := 1, state := lockedBy\<rparr>))
         else Inr b1))"

definition botUnlock :: "string \<Rightarrow> 'w bot \<Rightarrow> fault + 'w bot" where
  "botUnlock unlockedBy b =
     (if \<not> mutex b then Inl (Crashed ''sync: unlock of unlocked mutex'')
      else
        (let b1 = b\<lparr>mutex := False\<rparr> in
         if lockedAtom b1 = 1
         then Inr (stateChanged False unlockedBy (b1\<lparr>lockedAtom := 0, state := unlockedBy\<rparr>))
         else Inr b1))"



text \<open>The lock flag agrees with the mutex: every state that the two operations reach from a
  fresh bot, one call after the other.\<close>

definition lockConsistent :: "'w bot \<Rightarrow> bool" where
  "lockConsistent b = (lockedAtom b = (if mutex b then 1 else 0))"

section \<open>The event stream\<close>

subsection \<open>Building the auctioneer packets\<close>

definition jget :: "(string \<times> json) list \<Rightarrow> string \<Rightarrow> json" where
  "jget m key = (case map_of m key of None \<Rightarrow> JNull | Some v \<Rightarrow> v)"

definition doCastF64 :: "json \<Rightarrow> real" where
  "doCastF64 v = (case v of JNum f \<Rightarrow> f | _ \<Rightarrow> 0)"

definition doCastStr :: "json \<Rightarrow> string" where
  "doCastStr v = (case v of JStr str \<Rightarrow> str | _ \<Rightarrow> [])"

text \<open>The conversion \<open>int64(f)\<close> drops the fraction; \<open>wrap64\<close> is the arithmetic of
  \<open>int64\<close>.\<close>

definition toInt64 :: "'w env \<Rightarrow> real \<Rightarrow> int" where
  "toInt64 E f =
     (let t = (if f \<ge> 0 then \<lfloor>f\<rfloor> else \<lceil>f\<rceil>) in
      if - (2 ^ 63) \<le> t \<and> t < 2 ^ 63 then t else f64Overflow E f)"

definition wrap64 :: "int \<Rightarrow> int" where
  "wrap64 x = (x + 2 ^ 63) mod 2 ^ 64 - 2 ^ 63"

definition castPlayer :: "'w env \<Rightarrow> json \<Rightarrow> player" where
  "castPlayer E v =
     (case v of
        JObj p \<Rightarrow> Player (toInt64 E (doCastF64 (jget p ''id''))) (doCastStr (jget p ''name''))
                   (doCastStr (jget p ''link''))
      | _ \<Rightarrow> Player 0 [] [])"

definition approxMinutes :: "'w env \<Rightarrow> string \<Rightarrow> int" where
  "approxMinutes E html = wrap64 (DoParseI64 E (findDigits (findText E html ''b'')) * 60)"

text \<open>
  The chain of \<open>if name == ...\<close> that both dialects write out: from the name of the event
  and its first argument to the packet. \<open>pck\<close> is the packet so far, the text of the
  message, which stays when no branch applies.
\<close>

definition packetFor :: "'w env \<Rightarrow> string \<Rightarrow> json \<Rightarrow> packet \<Rightarrow> packet" where
  "packetFor E name arg pck =
     (if name = ''new bid'' then
        (case arg of
           JObj firstArg \<Rightarrow>
             (let auctionID = DoParseI64 E (doCastStr (jget firstArg ''auctionId'')) in
              AuctioneerNewBid
                (toInt64 E (doCastF64 (jget firstArg ''sum'')))
                (toInt64 E (doCastF64 (jget firstArg ''price'')))
                (toInt64 E (doCastF64 (jget firstArg ''bids'')))
                auctionID
                (castPlayer E (jget firstArg ''player'')))
         | _ \<Rightarrow> pck)
      else if name = ''timeLeft'' then
        (case arg of
           JStr timeLeftMsg \<Rightarrow>
             if Contains timeLeftMsg ''color:'' then AuctioneerTimeRemaining (approxMinutes E timeLeftMsg)
             else if Contains timeLeftMsg ''nextAuction''
               then AuctioneerNextAuction (DoParseI64 E (findDigits (findText E timeLeftMsg ''span'')))
             else pck
         | _ \<Rightarrow> pck)
      else if name = ''new auction'' then
        (case arg of
           JObj firstArg \<Rightarrow>
             AuctioneerNewAuction
               (toInt64 E (doCastF64 (jget firstArg ''auctionId'')))
               (case jget firstArg ''info'' of JStr infoMsg \<Rightarrow> approxMinutes E infoMsg | _ \<Rightarrow> 0)
         | _ \<Rightarrow> pck)
      else if name = ''auction finished'' then
        (case arg of
           JObj firstArg \<Rightarrow>
             AuctioneerAuctionFinished
               (toInt64 E (doCastF64 (jget firstArg ''sum'')))
               (toInt64 E (doCastF64 (jget firstArg ''bids'')))
               0 []
               (castPlayer E (jget firstArg ''player''))
         | _ \<Rightarrow> pck)
      else pck)"

subsection \<open>Writing and dispatching\<close>

definition writeWS :: "string \<Rightarrow> 'w bot \<Rightarrow> 'w bot" where
  "writeWS frame b = b\<lparr>ws := ws b @ [frame]\<rparr>"

definition dispatchAuctioneer :: "packet \<Rightarrow> 'w bot \<Rightarrow> 'w bot" where
  "dispatchAuctioneer pck b =
     b\<lparr>world := foldl (\<lambda>w cb. cb pck w) (world b) (auctioneerCallbacks b)\<rparr>"

definition dispatchChat :: "ChatMsg list \<Rightarrow> 'w bot \<Rightarrow> 'w bot" where
  "dispatchChat Args b =
     b\<lparr>world := foldl (\<lambda>w chatMsg. foldl (\<lambda>w cb. cb chatMsg w) w (chatCallbacks b)) (world b) Args\<rparr>"

subsection \<open>The legacy dialect\<close>

text \<open>
  One turn of the receive loop of \<open>connectChatV7\<close> after a successful read: \<open>buf\<close> is the
  bytes read. The raw-frame callbacks run in goroutines of their own and are left out, as
  are the log lines and the pause after an unknown message.
\<close>

definition handleFrameV7 :: "'w env \<Rightarrow> bytes \<Rightarrow> 'w bot \<Rightarrow> 'w bot" where
  \<open>handleFrameV7 E buf b =
     (let msg = Trim buf [CHR 0x00] in
      if msg = ''1::'' then writeWS ''1::/auctioneer'' (writeWS ''1::/chat'' b)
      else if msg = ''1::/chat'' then
        (let authMsg = ''5:'' @ FI64 E (sessionChatCounter b) @
               ''+:/chat:{"name":"authorize","args":["'' @ ogameSession b @ ''"]}''
         in (writeWS authMsg b)\<lparr>sessionChatCounter := wrap64 (sessionChatCounter b + 1)\<rparr>)
      else if msg = ''2::'' then writeWS ''2::'' b
      else if matchAnywhere [Plus Digit, Lit ''::/auctioneer''] msg then
        (let msg1 = TrimPrefix msg ''5::/auctioneer:'';
             out = (case jsonUnmarshal E msg1 of Some (JObj m) \<Rightarrow> m | _ \<Rightarrow> []);
             pck =
               (case jget out ''args'' of
                  JArr args \<Rightarrow>
                    if length args > 0 then
                      (case jget out ''name'' of
                         JStr name \<Rightarrow> packetFor E name (hd args) (PckString msg1)
                       | _ \<Rightarrow> PckString msg1)
                    else PckString msg1
                | _ \<Rightarrow> PckString msg1)
         in dispatchAuctioneer pck b)
      else if matchAnywhere [Lit ''6::/chat:'', Plus Digit, Lit ''+[true]''] msg then b
      else if matchAnywhere [Lit ''6::/chat:'', Plus Digit, Lit ''+[false]''] msg then b
      else if HasPrefix msg ''5::/chat:'' then
        (case unmarshalChatPayload E (TrimPrefix msg ''5::/chat:'') of
           Inl err \<Rightarrow> b
         | Inr Args \<Rightarrow> dispatchChat Args b)
      else b)\<close>

text \<open>
  What a turn of the loop meets: the close signal, a failed read (the end of the stream, a
  closed connection, a read deadline that passed, anything else) or a frame.
\<close>

datatype recvErr = EOF | ClosedConn | IOTimeout | OtherRecvErr

datatype inbound = CloseChat | RecvErr recvErr | Recv bytes

fun readLoopV7 :: "'w env \<Rightarrow> inbound list \<Rightarrow> 'w bot \<Rightarrow> 'w bot" where
  "readLoopV7 E [] b = b"
| "readLoopV7 E (CloseChat # rest) b = b"
| "readLoopV7 E (RecvErr IOTimeout # rest) b = readLoopV7 E rest b"
| "readLoopV7 E (RecvErr err # rest) b = b"
| "readLoopV7 E (Recv buf # rest) b = readLoopV7 E rest (handleFrameV7 E buf b)"

subsection \<open>The current dialect\<close>

text \<open>\<open>strings.SplitN(buf, ",", 2)[1]\<close>: what follows the first comma; without a comma
  the index is out of range.\<close>

definition afterComma :: "string \<Rightarrow> string option" where
  "afterComma s = (case dropWhile (\<lambda>c. c \<noteq> CHR '','') s of [] \<Rightarrow> None | _ # rest \<Rightarrow> Some rest)"

definition handleFrameV8 :: "'w env \<Rightarrow> string \<Rightarrow> 'w bot \<Rightarrow> fault + 'w bot" where
  \<open>handleFrameV8 E buf b =
     (if buf = ''3probe'' then
        Inr (writeWS ''40/auctioneer,'' (writeWS ''40/chat,'' (writeWS ''5'' b)))
      else if buf = ''2'' then Inr (writeWS ''3'' b)
      else if matchAnywhere [Lit ''40/auctioneer,{"sid":"'', Plus NotQuote, Lit ''"}''] buf then Inr b
      else if matchAnywhere [Lit ''40/chat,{"sid":"'', Plus NotQuote, Lit ''"}''] buf then
        Inr ((writeWS (''42/chat,'' @ FI64 E (sessionChatCounter b) @ ''["authorize","'' @
                 ogameSession b @ ''"]'') b)
               \<lparr>sessionChatCounter := wrap64 (sessionChatCounter b + 1)\<rparr>)
      else if matchAnywhere [Lit ''43/chat,'', Plus Digit, Lit ''[true]''] buf then Inr b
      else if matchAnywhere [Lit ''43/chat,'', Plus Digit, Lit ''[false]''] buf then Inr b
      else if HasPrefix buf ''42/chat,["chat",'' then
        (let payload = TrimSuffix (TrimPrefix buf ''42/chat,["chat",'') '']'' in
         case unmarshalChatMsg E payload of
           Inl err \<Rightarrow> Inr b
         | Inr chatMsg \<Rightarrow> Inr (dispatchChat [chatMsg] b))
      else if matchHere [Plus Digit, Lit ''/auctioneer''] buf then
        (case afterComma buf of
           None \<Rightarrow> Inl (Crashed ''index out of range'')
         | Some msg \<Rightarrow>
             (let out = (case jsonUnmarshal E msg of Some (JArr xs) \<Rightarrow> xs | _ \<Rightarrow> []) in
              if length out = 0 then Inr b
              else
                (case hd out of
                   JStr name \<Rightarrow>
                     if length out < 2 then Inl (Crashed ''index out of range'')
                     else Inr (dispatchAuctioneer (packetFor E name (out ! 1) (PckString msg)) b)
                 | _ \<Rightarrow> Inr (dispatchAuctioneer (PckString msg) b))))
      else Inr b)\<close>

fun readLoopV8 :: "'w env \<Rightarrow> inbound list \<Rightarrow> 'w bot \<Rightarrow> fault + 'w bot" where
  "readLoopV8 E [] b = Inr b"
| "readLoopV8 E (CloseChat # rest) b = Inr b"
| "readLoopV8 E (RecvErr IOTimeout # rest) b = readLoopV8 E rest b"
| "readLoopV8 E (RecvErr err # rest) b = Inr b"
| "readLoopV8 E (Recv buf # rest) b =
     (case handleFrameV8 E buf b of Inl f \<Rightarrow> Inl f | Inr b1 \<Rightarrow> readLoopV8 E rest b1)"

section \<open>Sample inputs\<close>

text \<open>
  Concrete collaborators and bots on which the theorems below are run. \<open>sampleNames\<close>
  gives each page-name constant the text its identifier suggests. The world of the samples
  is the list of the memos that the registered observers have left.
\<close>

fun sampleNames :: "pageName \<Rightarrow> string" where
  "sampleNames OverviewPageName = ''overview''"
| "sampleNames TraderOverviewPageName = ''traderOverview''"
| "sampleNames ResearchPageName = ''research''"
| "sampleNames ShipyardPageName = ''shipyard''"
| "sampleNames GalaxyPageName = ''galaxy''"
| "sampleNames AlliancePageName = ''alliance''"
| "sampleNames PremiumPageName = ''premium''"
| "sampleNames ShopPageName = ''shop''"
| "sampleNames RewardsPageName = ''rewards''"
| "sampleNames ResourceSettingsPageName = ''resourceSettings''"
| "sampleNames MovementPageName = ''movement''"
| "sampleNames HighscorePageName = ''highscore''"
| "sampleNames BuddiesPageName = ''buddies''"
| "sampleNames PreferencesPageName = ''preferences''"
| "sampleNames MessagesPageName = ''messages''"
| "sampleNames ChatPageName = ''chat''"
| "sampleNames DefensesPageName = ''defenses''"
| "sampleNames SuppliesPageName = ''supplies''"
| "sampleNames FacilitiesPageName = ''facilities''"
| "sampleNames FleetdispatchPageName = ''fleetdispatch''"
| "sampleNames LogoutPageName = ''logout''"
| "sampleNames FetchEventboxAjaxPageName = ''fetchEventbox''"
| "sampleNames FetchResourcesAjaxPageName = ''fetchResources''"
| "sampleNames GalaxyContentAjaxPageName = ''galaxyContent''"
| "sampleNames EventListAjaxPageName = ''eventList''"
| "sampleNames AjaxChatAjaxPageName = ''ajaxChat''"
| "sampleNames NoticesAjaxPageName = ''notices''"
| "sampleNames RepairlayerAjaxPageName = ''repairlayer''"
| "sampleNames TechtreeAjaxPageName = ''techtree''"
| "sampleNames PhalanxAjaxPageName = ''phalanx''"
| "sampleNames ShareReportOverlayAjaxPageName = ''shareReportOverlay''"
| "sampleNames JumpgatelayerAjaxPageName = ''jumpgatelayer''"
| "sampleNames FederationlayerAjaxPageName = ''federationlayer''"
| "sampleNames UnionchangeAjaxPageName = ''unionchange''"
| "sampleNames ChangenickAjaxPageName = ''changenick''"
| "sampleNames PlanetlayerAjaxPageName = ''planetlayer''"
| "sampleNames TraderlayerAjaxPageName = ''traderlayer''"
| "sampleNames PlanetRenameAjaxPageName = ''planetRename''"
| "sampleNames RightmenuAjaxPageName = ''rightmenu''"
| "sampleNames AllianceOverviewAjaxPageName = ''allianceOverview''"
| "sampleNames SupportAjaxPageName = ''support''"
| "sampleNames BuffActivationAjaxPageName = ''buffActivation''"
| "sampleNames AuctioneerAjaxPageName = ''auctioneer''"
| "sampleNames HighscoreContentAjaxPageName = ''highscoreContent''"

definition bidPayloadV7 :: string where
  \<open>bidPayloadV7 = ''{"name":"new bid","args":[{"player":{"id":106734,"name":"Someone","link":"https://s152-en/galaxy"},"sum":2000,"price":3000,"bids":2,"auctionId":"13355"}]}''\<close>

definition bidPayloadV8 :: string where
  \<open>bidPayloadV8 = ''["new bid",{"player":{"id":219657,"name":"Payback","link":"https://s129-en/galaxy"},"sum":5000,"price":6000,"bids":5,"auctionId":"42894"}]''\<close>

definition hostilePayloadV8 :: string where
  \<open>hostilePayloadV8 = ''["new bid",{"player":{"id":219657,"name":"43/chat,1[true]","link":"https://s129-en/galaxy"},"sum":5000,"price":6000,"bids":5,"auctionId":"42894"}]''\<close>

definition bidObject :: "string \<Rightarrow> real \<Rightarrow> string \<Rightarrow> real \<Rightarrow> real \<Rightarrow> real \<Rightarrow> string \<Rightarrow> json" where
  "bidObject link pid pname bsum price bids aid =
     JObj [(''player'', JObj [(''id'', JNum pid), (''name'', JStr pname), (''link'', JStr link)]),
           (''sum'', JNum bsum), (''price'', JNum price), (''bids'', JNum bids),
           (''auctionId'', JStr aid)]"

text \<open>The decoder of the samples knows the three payloads above and rejects everything
  else.\<close>

definition sampleJson :: "bytes \<Rightarrow> json option" where
  \<open>sampleJson by =
     (if by = bidPayloadV7 then
        Some (JObj [(''name'', JStr ''new bid''),
                    (''args'', JArr [bidObject ''https://s152-en/galaxy'' 106734 ''Someone'' 2000 3000 2 ''13355''])])
      else if by = bidPayloadV8 then
        Some (JArr [JStr ''new bid'',
                    bidObject ''https://s129-en/galaxy'' 219657 ''Payback'' 5000 6000 5 ''42894''])
      else if by = hostilePayloadV8 then
        Some (JArr [JStr ''new bid'',
                    bidObject ''https://s129-en/galaxy'' 219657 ''43/chat,1[true]'' 5000 6000 5 ''42894''])
      else None)\<close>

definition sampleParseI64 :: "string \<Rightarrow> int" where
  "sampleParseI64 str = foldl (\<lambda>n c. 10 * n + (int (of_char c) - 48)) 0 str"

function digitsOf :: "nat \<Rightarrow> string" where
  "digitsOf n = (if n < 10 then [char_of (48 + n)] else digitsOf (n div 10) @ [char_of (48 + n mod 10)])"
  by pat_completeness auto
termination
  by (relation "measure id") auto

definition sampleFI64 :: "int \<Rightarrow> string" where
  "sampleFI64 i = (if i < 0 then CHR ''-'' # digitsOf (nat (- i)) else digitsOf (nat i))"

datatype memo = StateNote nat bool string | PacketNote nat packet

text \<open>\<open>sampleEnv body loginRes\<close>: the server answers every request with status 200 and
  \<open>body\<close>, the wait is never cancelled, the re-login gives \<open>loginRes\<close>.\<close>

definition sampleEnv :: "bytes \<Rightarrow> error option \<Rightarrow> memo list env" where
  "sampleEnv body loginRes =
     \<lparr>ctxWait = (\<lambda>n b. (False, b)),
      wrapLoginWithExistingCookies = (\<lambda>b. (loginRes, b)),
      httpDo = (\<lambda>method url bd ajax b. (Inr (200, Inr body), b)),
      canParseEventBox = (\<lambda>by. False),
      canParseSystemInfos = (\<lambda>by. False),
      unmarshalChatPostResp = (\<lambda>by. Inl ''invalid character''),
      unmarshalChatPayload = (\<lambda>by. Inl ''invalid character''),
      unmarshalChatMsg = (\<lambda>by. Inl ''invalid character''),
      jsonUnmarshal = sampleJson,
      hasCachedCelestial = (\<lambda>cid b. False),
      cacheFullPageInfo = (\<lambda>by b. b),
      cachePreferences = (\<lambda>by b. b),
      Encode = (\<lambda>vals. []),
      FI64 = sampleFI64,
      DoParseI64 = sampleParseI64,
      findText = (\<lambda>html sel. []),
      f64Overflow = (\<lambda>f. - (2 ^ 63)),
      N = sampleNames\<rparr>"

definition stateObserver :: "nat \<Rightarrow> bool \<Rightarrow> string \<Rightarrow> memo list \<Rightarrow> memo list" where
  "stateObserver k locked actor w = w @ [StateNote k locked actor]"

definition packetObserver :: "nat \<Rightarrow> packet \<Rightarrow> memo list \<Rightarrow> memo list" where
  "packetObserver k pck w = w @ [PacketNote k pck]"

definition sampleBot :: "memo list bot" where
  "sampleBot =
     \<lparr>isEnabledAtom = 1, isLoggedInAtom = 1, isConnectedAtom = 1, lockedAtom = 0,
      mutex = False, state = [], stateChangeCallbacks = [stateObserver 0, stateObserver 1],
      ajaxChatToken = ''tok'', ogameSession = ''abc123'', sessionChatCounter = 1,
      serverURL = ''https://s152-en.ogame.gameforge.com'', ws = [], chatCallbacks = [],
      auctioneerCallbacks = [packetObserver 0, packetObserver 1], world = []\<rparr>"

text \<open>A callback that always finds the session lost, as \<open>clb\<close> does on a login page.\<close>

definition lostFn :: "bytes \<Rightarrow> 'w bot \<Rightarrow> error option \<times> bytes \<times> 'w bot" where
  "lostFn c b = (Some ErrNotLogged, c, b\<lparr>isConnectedAtom := 0\<rparr>)"

definition fullRetryTrace :: "event list" where
  "fullRetryTrace =
     [Exec (Some ErrNotLogged), Sleep 1, Relogin None,
      Exec (Some ErrNotLogged), Sleep 2, Relogin None,
      Exec (Some ErrNotLogged), Sleep 4, Relogin None,
      Exec (Some ErrNotLogged), Sleep 8, Relogin None,
      Exec (Some ErrNotLogged), Sleep 16, Relogin None,
      Exec (Some ErrNotLogged), Sleep 32, Relogin None,
      Exec (Some ErrNotLogged), Sleep 60, Relogin None,
      Exec (Some ErrNotLogged), Sleep 60, Relogin None,
      Exec (Some ErrNotLogged), Sleep 60, Relogin None,
      Exec (Some ErrNotLogged)]"

definition loginPage :: bytes where
  "loginPage = ''<html><title>OGame Lobby</title></html>''"

definition overviewPage :: bytes where
  \<open>overviewPage = ''<html><meta name="ogame-session" content="abc123"/></html>''\<close>

definition overviewVals :: urlValues where
  "overviewVals = [''page'' \<mapsto> [''ingame''], ''component'' \<mapsto> [''overview'']]"

definition allianceVals :: urlValues where
  "allianceVals =
     [''page'' \<mapsto> [''ingame''], ''component'' \<mapsto> [''overview''], ''allianceId'' \<mapsto> [''500'']]"



text \<open>
  A well-formed "new bid" argument, as in the examples the source quotes: an object whose
  \<open>sum\<close>, \<open>price\<close> and \<open>bids\<close> are whole numbers in the range of \<open>int64\<close>, whose
  \<open>auctionId\<close> is a string, and whose \<open>player\<close> is an object with a whole number
  \<open>id\<close> and the strings \<open>name\<close> and \<open>link\<close>.
\<close>

definition isInt64 :: "int \<Rightarrow> bool" where
  "isInt64 n = (- (2 ^ 63) \<le> n \<and> n < 2 ^ 63)"

definition wellFormedNewBid ::
  "json \<Rightarrow> int \<Rightarrow> int \<Rightarrow> int \<Rightarrow> string \<Rightarrow> int \<Rightarrow> string \<Rightarrow> string \<Rightarrow> bool" where
  "wellFormedNewBid arg bsum price bids aid pid pname plink =
     (case arg of
        JObj firstArg \<Rightarrow>
          jget firstArg ''sum'' = JNum (of_int bsum) \<and> isInt64 bsum \<and>
          jget firstArg ''price'' = JNum (of_int price) \<and> isInt64 price \<and>
          jget firstArg ''bids'' = JNum (of_int bids) \<and> isInt64 bids \<and>
          jget firstArg ''auctionId'' = JStr aid \<and>
          (case jget firstArg ''player'' of
             JObj p \<Rightarrow>
               jget p ''id'' = JNum (of_int pid) \<and> isInt64 pid \<and>
               jget p ''name'' = JStr pname \<and> jget p ''link'' = JStr plink
           | _ \<Rightarrow> False)
      | _ \<Rightarrow> False)"

text \<open>The frame with which the legacy dialect authorizes the chat.\<close>

definition sampleAuthorizeV7 :: string where
  \<open>sampleAuthorizeV7 = ''5:1+:/chat:{"name":"authorize","args":["abc123"]}''\<close>


definition hostileFrameV8 :: string where
  "hostileFrameV8 = ''42/auctioneer,'' @ hostilePayloadV8"

section \<open>Properties of the retry wrapper\<close>

declare withRetry_loop.simps [simp del]

text \<open>One turn of the loop: the eight ways through its body.\<close>

lemma withRetry_loop_cases:
  assumes "withRetry_loop E fn m ri c b = (r, c', b', tr)"
  obtains
    (ok) "fn c b = (None, c', b')" "r = None" "tr = [Exec None]"
  | (disabled) err where "fn c b = (Some err, c', b')" "\<not> IsEnabled b'"
      "r = Some ErrBotInactive" "tr = [Exec (Some err)]"
  | (loggedout) err where "fn c b = (Some err, c', b')" "IsEnabled b'" "\<not> IsLoggedIn b'"
      "r = Some ErrBotLoggedOut" "tr = [Exec (Some err)]"
  | (exhausted) err where "fn c b = (Some err, c', b')" "IsEnabled b'" "IsLoggedIn b'"
      "m - 1 \<le> 0" "r = Some (Wrap err ErrFailedExecuteCallback)" "tr = [Exec (Some err)]"
  | (cancelled) err b1 where "fn c b = (Some err, c', b1)" "IsEnabled b1" "IsLoggedIn b1"
      "0 < m - 1" "ctxWait E ri b1 = (True, b')" "r = Some ErrBotInactive"
      "tr = [Exec (Some err), Sleep ri]"
  | (fatal) b1 b2 loginErr where "fn c b = (Some ErrNotLogged, c', b1)" "IsEnabled b1"
      "IsLoggedIn b1" "0 < m - 1" "ctxWait E ri b1 = (False, b2)"
      "wrapLoginWithExistingCookies E b2 = (Some loginErr, b')" "isFatalLoginErr loginErr"
      "r = Some loginErr" "tr = [Exec (Some ErrNotLogged), Sleep ri, Relogin (Some loginErr)]"
  | (relogin) c1 b1 b2 b3 loginRes tr' where "fn c b = (Some ErrNotLogged, c1, b1)"
      "IsEnabled b1" "IsLoggedIn b1" "0 < m - 1" "ctxWait E ri b1 = (False, b2)"
      "wrapLoginWithExistingCookies E b2 = (loginRes, b3)"
      "\<forall>loginErr. loginRes = Some loginErr \<longrightarrow> \<not> isFatalLoginErr loginErr"
      "withRetry_loop E fn (m - 1) (min (ri * 2) 60) c1 b3 = (r, c', b', tr')"
      "tr = [Exec (Some ErrNotLogged), Sleep ri, Relogin loginRes] @ tr'"
  | (retry) err c1 b1 b2 tr' where "fn c b = (Some err, c1, b1)" "err \<noteq> ErrNotLogged"
      "IsEnabled b1" "IsLoggedIn b1" "0 < m - 1" "ctxWait E ri b1 = (False, b2)"
      "withRetry_loop E fn (m - 1) (min (ri * 2) 60) c1 b2 = (r, c', b', tr')"
      "tr = [Exec (Some err), Sleep ri] @ tr'"
proof -
  obtain res c1 b1 where f: "fn c b = (res, c1, b1)" by (cases "fn c b")
  obtain cn b2 where w: "ctxWait E ri b1 = (cn, b2)" by (cases "ctxWait E ri b1")
  obtain lr b3 where l: "wrapLoginWithExistingCookies E b2 = (lr, b3)"
    by (cases "wrapLoginWithExistingCookies E b2")
  obtain r3 c3 b3' tr3 where
    rec3: "withRetry_loop E fn (m - 1) (min (ri * 2) 60) c1 b3 = (r3, c3, b3', tr3)"
    by (cases "withRetry_loop E fn (m - 1) (min (ri * 2) 60) c1 b3")
  obtain r2 c2 b2' tr2 where
    rec2: "withRetry_loop E fn (m - 1) (min (ri * 2) 60) c1 b2 = (r2, c2, b2', tr2)"
    by (cases "withRetry_loop E fn (m - 1) (min (ri * 2) 60) c1 b2")
  have m: "(if ri * 2 > 60 then 60 else ri * 2) = min (ri * 2) 60" by simp
  show thesis
    using assms f w l rec3 rec2 that
    apply (subst (asm) withRetry_loop.simps)
    apply (simp only: m Let_def prod.case)
    apply (auto simp: emit_def split: option.splits if_splits)
    done
qed

lemma execs_simps:
  "execs [] = 0" "execs (Exec x # tr) = Suc (execs tr)" "execs (Sleep n # tr) = execs tr"
  "execs (Relogin y # tr) = execs tr"
  by (simp_all add: execs_def)

lemma relogins_simps:
  "relogins [] = 0" "relogins (Exec x # tr) = relogins tr"
  "relogins (Sleep n # tr) = relogins tr" "relogins (Relogin y # tr) = Suc (relogins tr)"
  by (simp_all add: relogins_def)




lemma withRetry_loop_fatal_last:
  "withRetry_loop E fn m ri c b = (r, c', b', tr) \<Longrightarrow> tr = pre @ Relogin (Some e) # post \<Longrightarrow>
     isFatalLoginErr e \<Longrightarrow> post = [] \<and> r = Some e"
proof (induction "nat m" arbitrary: m ri c b tr pre rule: less_induct)
  case less
  from less.prems(1) show ?case
  proof (cases rule: withRetry_loop_cases)
    case (relogin c1 b1 b2 b3 loginRes tr')
    from relogin(9) less.prems(2,3) relogin(7)
    obtain pre' where "tr' = pre' @ Relogin (Some e) # post"
      by (auto simp: Cons_eq_append_conv append_eq_Cons_conv)
    then show ?thesis
      using less.hyps[OF _ relogin(8) _ less.prems(3)] relogin(4) by simp
  next
    case (retry err c1 b1 b2 tr')
    from retry(8) less.prems(2,3)
    obtain pre' where "tr' = pre' @ Relogin (Some e) # post"
      by (auto simp: Cons_eq_append_conv append_eq_Cons_conv)
    then show ?thesis
      using less.hyps[OF _ retry(7) _ less.prems(3)] retry(5) by simp
  qed (use less.prems in \<open>auto simp: Cons_eq_append_conv append_eq_Cons_conv\<close>)
qed

lemma withRetry_loop_session_lost:
  assumes fails: "\<forall>c b. fst (fn c b) = Some ErrNotLogged"
  shows "withRetry_loop E fn m ri c b = (r, c', b', tr) \<Longrightarrow>
     execs tr \<le> nat (max m 1) \<and> Suc (relogins tr) \<le> nat (max m 1) \<and>
     (r = Some (Wrap ErrNotLogged ErrFailedExecuteCallback) \<and> execs tr = nat (max m 1) \<and>
        Suc (relogins tr) = nat (max m 1) \<or>
      r = Some ErrBotInactive \<or> r = Some ErrBotLoggedOut \<or>
      (\<exists>e. r = Some e \<and> isFatalLoginErr e))"
proof (induction "nat m" arbitrary: m ri c b tr rule: less_induct)
  case less
  have f: "\<And>x c1 b1. fn c b = (x, c1, b1) \<Longrightarrow> x = Some ErrNotLogged"
    using fails by (metis fst_conv)
  from less.prems(1) show ?case
  proof (cases rule: withRetry_loop_cases)
    case ok
    then show ?thesis using f by auto
  next
    case (disabled err)
    then show ?thesis by (auto simp: execs_simps relogins_simps)
  next
    case (loggedout err)
    then show ?thesis by (auto simp: execs_simps relogins_simps)
  next
    case (exhausted err)
    then show ?thesis using f[OF exhausted(1)] by (auto simp: execs_simps relogins_simps)
  next
    case (cancelled err b1)
    then show ?thesis by (auto simp: execs_simps relogins_simps)
  next
    case (fatal b1 b2 loginErr)
    then show ?thesis by (auto simp: execs_simps relogins_simps)
  next
    case (relogin c1 b1 b2 b3 loginRes tr')
    have m: "nat (max (m - 1) 1) = nat (max m 1) - 1" "1 < nat (max m 1)"
      using relogin(4) by auto
    show ?thesis
      using less.hyps[OF _ relogin(8)] relogin(4) relogin(9) m
      by (auto simp: execs_simps relogins_simps)
  next
    case (retry err c1 b1 b2 tr')
    then show ?thesis using f[OF retry(1)] by simp
  qed
qed

text \<open>The wrapper never hands out the session-lost value itself, and a wrapped error is
  the last failure of a run that used the whole budget.\<close>

lemma withRetry_loop_result:
  "withRetry_loop E fn m ri c b = (r, c', b', tr) \<Longrightarrow>
     r \<noteq> Some ErrNotLogged \<and>
     (\<forall>e. r = Some (Wrap e ErrFailedExecuteCallback) \<and> last tr = Exec (Some e) \<longrightarrow>
          execs tr = nat (max m 1)) \<and>
     (r = None \<or> r = Some ErrBotInactive \<or> r = Some ErrBotLoggedOut \<or>
      (\<exists>e. r = Some e \<and> isFatalLoginErr e) \<or>
      (\<exists>e. r = Some (Wrap e ErrFailedExecuteCallback) \<and> last tr = Exec (Some e) \<and>
           execs tr = nat (max m 1)))"
proof (induction "nat m" arbitrary: m ri c b tr rule: less_induct)
  case less
  from less.prems(1) show ?case
  proof (cases rule: withRetry_loop_cases)
    case (relogin c1 b1 b2 b3 loginRes tr')
    have m: "nat (max (m - 1) 1) = nat (max m 1) - 1" "1 < nat (max m 1)"
      using relogin(4) by auto
    have ne: "tr' \<noteq> []" using relogin(8) by (cases rule: withRetry_loop_cases) auto
    show ?thesis
      using less.hyps[OF _ relogin(8)] relogin(4) relogin(9) m ne
      by (auto simp: execs_simps relogins_simps)
  next
    case (retry err c1 b1 b2 tr')
    have m: "nat (max (m - 1) 1) = nat (max m 1) - 1" "1 < nat (max m 1)"
      using retry(5) by auto
    have ne: "tr' \<noteq> []" using retry(7) by (cases rule: withRetry_loop_cases) auto
    show ?thesis
      using less.hyps[OF _ retry(7)] retry(5) retry(8) m ne
      by (auto simp: execs_simps relogins_simps)
  qed (auto simp: execs_simps isFatalLoginErr_def)
qed

lemma withRetry_loop_no_relogin:
  assumes "\<forall>c b. fst (fn c b) \<noteq> Some ErrNotLogged"
  shows "withRetry_loop E fn m ri c b = (r, c', b', tr) \<Longrightarrow> relogins tr = 0"
proof (induction "nat m" arbitrary: m ri c b tr rule: less_induct)
  case less
  have f: "\<And>x c1 b1. fn c b = (x, c1, b1) \<Longrightarrow> x \<noteq> Some ErrNotLogged"
    using assms by (metis fst_conv)
  from less.prems(1) show ?case
  proof (cases rule: withRetry_loop_cases)
    case (fatal b1 b2 loginErr)
    then show ?thesis using f by blast
  next
    case (relogin c1 b1 b2 b3 loginRes tr')
    then show ?thesis using f by blast
  next
    case (retry err c1 b1 b2 tr')
    then show ?thesis
      using less.hyps[OF _ retry(7)] by (simp add: relogins_simps)
  qed (auto simp: relogins_simps)
qed

lemma sampleRun_lost:
  "withRetry (sampleEnv body None) lostFn [] sampleBot =
     (Some (Wrap ErrNotLogged ErrFailedExecuteCallback), [], sampleBot\<lparr>isConnectedAtom := 0\<rparr>,
      fullRetryTrace)"
  by (simp add: withRetry_def withRetry_loop.simps sampleEnv_def sampleBot_def lostFn_def
      emit_def IsEnabled_def IsLoggedIn_def fullRetryTrace_def)

lemma sampleRun_blocked:
  "withRetry (sampleEnv body (Some ErrAccountBlocked)) lostFn [] sampleBot =
     (Some ErrAccountBlocked, [], sampleBot\<lparr>isConnectedAtom := 0\<rparr>,
      [Exec (Some ErrNotLogged), Sleep 1, Relogin (Some ErrAccountBlocked)])"
  by (simp add: withRetry_def withRetry_loop.simps sampleEnv_def sampleBot_def lostFn_def
      emit_def IsEnabled_def IsLoggedIn_def isFatalLoginErr_def)

lemma withRetry_loop_outcome:
  "withRetry_loop E fn m ri c b = (r, c', b', tr) \<Longrightarrow>
     tr \<noteq> [] \<and> 1 \<le> execs tr \<and> execs tr \<le> nat (max m 1) \<and>
     Suc (relogins tr) \<le> nat (max m 1) \<and>
     (r = None \<and> last tr = Exec None \<or>
      (\<exists>e. r = Some (Wrap e ErrFailedExecuteCallback) \<and> last tr = Exec (Some e) \<and>
           IsEnabled b' \<and> IsLoggedIn b' \<and> execs tr = nat (max m 1)) \<or>
      (\<exists>e. r = Some ErrBotInactive \<and> last tr = Exec (Some e) \<and> \<not> IsEnabled b') \<or>
      (\<exists>n. r = Some ErrBotInactive \<and> last tr = Sleep n) \<or>
      (\<exists>e. r = Some ErrBotLoggedOut \<and> last tr = Exec (Some e) \<and> IsEnabled b' \<and>
           \<not> IsLoggedIn b') \<or>
      (\<exists>e. r = Some e \<and> isFatalLoginErr e \<and> last tr = Relogin (Some e)))"
proof (induction "nat m" arbitrary: m ri c b tr rule: less_induct)
  case less
  from less.prems(1) show ?case
  proof (cases rule: withRetry_loop_cases)
    case ok
    then show ?thesis by (simp add: execs_simps relogins_simps)
  next
    case (disabled err)
    then show ?thesis by (simp add: execs_simps relogins_simps)
  next
    case (loggedout err)
    then show ?thesis by (simp add: execs_simps relogins_simps)
  next
    case (exhausted err)
    then show ?thesis by (simp add: execs_simps relogins_simps)
  next
    case (cancelled err b1)
    then show ?thesis by (auto simp: execs_simps relogins_simps)
  next
    case (fatal b1 b2 loginErr)
    then show ?thesis by (auto simp: execs_simps relogins_simps)
  next
    case (relogin c1 b1 b2 b3 loginRes tr')
    have m: "nat (max (m - 1) 1) = nat (max m 1) - 1" "1 < nat (max m 1)"
      using relogin(4) by auto
    have ih: "tr' \<noteq> [] \<and> 1 \<le> execs tr' \<and> execs tr' \<le> nat (max m 1) - 1 \<and>
        Suc (relogins tr') \<le> nat (max m 1) - 1 \<and>
     (r = None \<and> last tr' = Exec None \<or>
      (\<exists>e. r = Some (Wrap e ErrFailedExecuteCallback) \<and> last tr' = Exec (Some e) \<and>
           IsEnabled b' \<and> IsLoggedIn b' \<and> execs tr' = nat (max m 1) - 1) \<or>
      (\<exists>e. r = Some ErrBotInactive \<and> last tr' = Exec (Some e) \<and> \<not> IsEnabled b') \<or>
      (\<exists>n. r = Some ErrBotInactive \<and> last tr' = Sleep n) \<or>
      (\<exists>e. r = Some ErrBotLoggedOut \<and> last tr' = Exec (Some e) \<and> IsEnabled b' \<and>
           \<not> IsLoggedIn b') \<or>
      (\<exists>e. r = Some e \<and> isFatalLoginErr e \<and> last tr' = Relogin (Some e)))"
      using less.hyps[OF _ relogin(8)] relogin(4) m(1) by simp
    have l: "last tr = last tr'" "tr \<noteq> []" using ih relogin(9) by simp_all
    have e: "execs tr = Suc (execs tr')" "relogins tr = Suc (relogins tr')"
      using relogin(9) by (simp_all add: execs_simps relogins_simps)
    have a: "1 \<le> Suc (execs tr') \<and> Suc (execs tr') \<le> nat (max m 1) \<and>
        Suc (Suc (relogins tr')) \<le> nat (max m 1)"
      using ih m(2) by linarith
    have b: "execs tr' = nat (max m 1) - 1 \<Longrightarrow> Suc (execs tr') = nat (max m 1)"
      using m(2) by linarith
    show ?thesis unfolding l(1) e using ih l(2) a b by blast
  next
    case (retry err c1 b1 b2 tr')
    have m: "nat (max (m - 1) 1) = nat (max m 1) - 1" "1 < nat (max m 1)"
      using retry(5) by auto
    have ih: "tr' \<noteq> [] \<and> 1 \<le> execs tr' \<and> execs tr' \<le> nat (max m 1) - 1 \<and>
        Suc (relogins tr') \<le> nat (max m 1) - 1 \<and>
     (r = None \<and> last tr' = Exec None \<or>
      (\<exists>e. r = Some (Wrap e ErrFailedExecuteCallback) \<and> last tr' = Exec (Some e) \<and>
           IsEnabled b' \<and> IsLoggedIn b' \<and> execs tr' = nat (max m 1) - 1) \<or>
      (\<exists>e. r = Some ErrBotInactive \<and> last tr' = Exec (Some e) \<and> \<not> IsEnabled b') \<or>
      (\<exists>n. r = Some ErrBotInactive \<and> last tr' = Sleep n) \<or>
      (\<exists>e. r = Some ErrBotLoggedOut \<and> last tr' = Exec (Some e) \<and> IsEnabled b' \<and>
           \<not> IsLoggedIn b') \<or>
      (\<exists>e. r = Some e \<and> isFatalLoginErr e \<and> last tr' = Relogin (Some e)))"
      using less.hyps[OF _ retry(7)] retry(5) m(1) by simp
    have l: "last tr = last tr'" "tr \<noteq> []" using ih retry(8) by simp_all
    have e: "execs tr = Suc (execs tr')" "relogins tr = relogins tr'"
      using retry(8) by (simp_all add: execs_simps relogins_simps)
    have a: "1 \<le> Suc (execs tr') \<and> Suc (execs tr') \<le> nat (max m 1) \<and>
        Suc (relogins tr') \<le> nat (max m 1)"
      using ih m(2) by linarith
    have b: "execs tr' = nat (max m 1) - 1 \<Longrightarrow> Suc (execs tr') = nat (max m 1)"
      using m(2) by linarith
    show ?thesis unfolding l(1) e using ih l(2) a b by blast
  qed
qed

text \<open>Every failure that the trace records is the session-lost error when the callback
  fails with nothing else.\<close>

lemma withRetry_loop_trace_lost:
  assumes "\<forall>c b. fst (fn c b) = Some ErrNotLogged"
  shows "withRetry_loop E fn m ri c b = (r, c', b', tr) \<Longrightarrow> Exec x \<in> set tr \<Longrightarrow>
     x = Some ErrNotLogged"
proof (induction "nat m" arbitrary: m ri c b tr rule: less_induct)
  case less
  have f: "fst (fn c b) = Some ErrNotLogged" using assms by blast
  from less.prems(1) show ?case
  proof (cases rule: withRetry_loop_cases)
    case ok
    then show ?thesis using f by simp
  next
    case (disabled err)
    then show ?thesis using f less.prems(2) by simp
  next
    case (loggedout err)
    then show ?thesis using f less.prems(2) by simp
  next
    case (exhausted err)
    then show ?thesis using f less.prems(2) by simp
  next
    case (cancelled err b1)
    then show ?thesis using f less.prems(2) by simp
  next
    case (fatal b1 b2 loginErr)
    then show ?thesis using less.prems(2) by simp
  next
    case (relogin c1 b1 b2 b3 loginRes tr')
    have "x = Some ErrNotLogged \<or> Exec x \<in> set tr'"
      using less.prems(2) relogin(9) by simp
    then show ?thesis
      using less.hyps[OF _ relogin(8)] relogin(4) by auto
  next
    case (retry err c1 b1 b2 tr')
    then show ?thesis using f by simp
  qed
qed

text \<open>The run in which nothing interferes: \<open>I\<close> is any property of the bot that the
  callback, the wait and the re-login keep, under which the callback leaves the bot enabled
  and logged in, the wait is not cancelled and the re-login does not fail fatally.\<close>

lemma withRetry_loop_session_lost_undisturbed:
  assumes fails: "\<forall>c b. fst (fn c b) = Some ErrNotLogged"
    and fn_inv: "\<forall>c b. I b \<longrightarrow> IsEnabled (snd (snd (fn c b))) \<and>
        IsLoggedIn (snd (snd (fn c b))) \<and> I (snd (snd (fn c b)))"
    and wait_inv: "\<forall>n b. I b \<longrightarrow> \<not> fst (ctxWait E n b) \<and> I (snd (ctxWait E n b))"
    and login_inv: "\<forall>b. I b \<longrightarrow>
        (\<forall>e. fst (wrapLoginWithExistingCookies E b) = Some e \<longrightarrow> \<not> isFatalLoginErr e) \<and>
        I (snd (wrapLoginWithExistingCookies E b))"
  shows "withRetry_loop E fn m ri c b = (r, c', b', tr) \<Longrightarrow> I b \<Longrightarrow>
     r = Some (Wrap ErrNotLogged ErrFailedExecuteCallback) \<and> execs tr = nat (max m 1) \<and>
     Suc (relogins tr) = nat (max m 1)"
proof (induction "nat m" arbitrary: m ri c b tr rule: less_induct)
  case less
  have f: "\<And>x c1 b1. fn c b = (x, c1, b1) \<Longrightarrow>
      x = Some ErrNotLogged \<and> IsEnabled b1 \<and> IsLoggedIn b1 \<and> I b1"
    using fails fn_inv less.prems(2) by (metis fst_conv snd_conv)
  have w: "\<And>b1 x b2. I b1 \<Longrightarrow> ctxWait E ri b1 = (x, b2) \<Longrightarrow> \<not> x \<and> I b2"
    using wait_inv by (metis fst_conv snd_conv)
  have l: "\<And>b2 x b3. I b2 \<Longrightarrow> wrapLoginWithExistingCookies E b2 = (x, b3) \<Longrightarrow>
      (\<forall>e. x = Some e \<longrightarrow> \<not> isFatalLoginErr e) \<and> I b3"
    using login_inv by (metis fst_conv snd_conv)
  from less.prems(1) show ?case
  proof (cases rule: withRetry_loop_cases)
    case ok
    then show ?thesis using f by blast
  next
    case (disabled err)
    then show ?thesis using f by blast
  next
    case (loggedout err)
    then show ?thesis using f by blast
  next
    case (exhausted err)
    then show ?thesis using f[OF exhausted(1)] by (auto simp: execs_simps relogins_simps)
  next
    case (cancelled err b1)
    then show ?thesis using f[OF cancelled(1)] w by blast
  next
    case (fatal b1 b2 loginErr)
    have "I b2" using f[OF fatal(1)] w[OF _ fatal(5)] by blast
    then show ?thesis using l[OF _ fatal(6)] fatal(7) by blast
  next
    case (relogin c1 b1 b2 b3 loginRes tr')
    have "I b2" using f[OF relogin(1)] w[OF _ relogin(5)] by blast
    then have i3: "I b3" using l[OF _ relogin(6)] by blast
    have m: "nat (max (m - 1) 1) = nat (max m 1) - 1" "1 < nat (max m 1)"
      using relogin(4) by auto
    show ?thesis
      using less.hyps[OF _ relogin(8) i3] relogin(4) relogin(9) m
      by (auto simp: execs_simps relogins_simps)
  next
    case (retry err c1 b1 b2 tr')
    then show ?thesis using f[OF retry(1)] by simp
  qed
qed

section \<open>The claims\<close>

text \<open>
  C1. An operation that fails on every attempt with the session-lost error: the wrapper
  runs it at least once and at most 10 times and tries to log in again at most 10 times
  (9, in fact); it never returns success nor the session-lost error itself. Its result
  comes with its cause: the terminal error that wraps the session-lost failure after
  exactly 10 executions and 9 re-logins, with the bot still enabled and logged in; or the
  bot-inactive error, when the bot is disabled after a failure or the wait is cancelled;
  or the logged-out error, when the bot is logged out after a failure; or the fatal error
  of the re-login that was the last thing done. When nothing interferes (the operation
  leaves the bot enabled and logged in, no wait is cancelled, no re-login fails fatally),
  the wrapper returns the terminal error, after exactly 10 executions and 9 re-logins.
\<close>

theorem withRetry_session_lost_terminal:
  assumes "\<forall>c b. fst (fn c b) = Some ErrNotLogged"
    and "withRetry E fn c b = (r, c', b', tr)"
  shows "1 \<le> execs tr \<and> execs tr \<le> 10 \<and> relogins tr \<le> 10 \<and>
     r \<noteq> None \<and> r \<noteq> Some ErrNotLogged \<and>
     (r = Some (Wrap ErrNotLogged ErrFailedExecuteCallback) \<and>
        last tr = Exec (Some ErrNotLogged) \<and> IsEnabled b' \<and> IsLoggedIn b' \<and>
        execs tr = 10 \<and> relogins tr = 9 \<or>
      r = Some ErrBotInactive \<and> last tr = Exec (Some ErrNotLogged) \<and> \<not> IsEnabled b' \<or>
      (\<exists>n. r = Some ErrBotInactive \<and> last tr = Sleep n) \<or>
      r = Some ErrBotLoggedOut \<and> last tr = Exec (Some ErrNotLogged) \<and> IsEnabled b' \<and>
        \<not> IsLoggedIn b' \<or>
      (\<exists>e. r = Some e \<and> isFatalLoginErr e \<and> last tr = Relogin (Some e))) \<and>
     (I b \<and>
      (\<forall>c b. I b \<longrightarrow> IsEnabled (snd (snd (fn c b))) \<and> IsLoggedIn (snd (snd (fn c b))) \<and>
         I (snd (snd (fn c b)))) \<and>
      (\<forall>n b. I b \<longrightarrow> \<not> fst (ctxWait E n b) \<and> I (snd (ctxWait E n b))) \<and>
      (\<forall>b. I b \<longrightarrow>
         (\<forall>e. fst (wrapLoginWithExistingCookies E b) = Some e \<longrightarrow> \<not> isFatalLoginErr e) \<and>
         I (snd (wrapLoginWithExistingCookies E b))) \<longrightarrow>
      r = Some (Wrap ErrNotLogged ErrFailedExecuteCallback) \<and> execs tr = 10 \<and>
      relogins tr = 9)"
proof -
  have run: "withRetry_loop E fn 10 1 c b = (r, c', b', tr)"
    using assms(2) by (simp add: withRetry_def)
  have o: "tr \<noteq> [] \<and> 1 \<le> execs tr \<and> execs tr \<le> 10 \<and> Suc (relogins tr) \<le> 10 \<and>
     (r = None \<and> last tr = Exec None \<or>
      (\<exists>e. r = Some (Wrap e ErrFailedExecuteCallback) \<and> last tr = Exec (Some e) \<and>
           IsEnabled b' \<and> IsLoggedIn b' \<and> execs tr = 10) \<or>
      (\<exists>e. r = Some ErrBotInactive \<and> last tr = Exec (Some e) \<and> \<not> IsEnabled b') \<or>
      (\<exists>n. r = Some ErrBotInactive \<and> last tr = Sleep n) \<or>
      (\<exists>e. r = Some ErrBotLoggedOut \<and> last tr = Exec (Some e) \<and> IsEnabled b' \<and>
           \<not> IsLoggedIn b') \<or>
      (\<exists>e. r = Some e \<and> isFatalLoginErr e \<and> last tr = Relogin (Some e)))"
    using withRetry_loop_outcome[OF run] by simp
  have ne: "tr \<noteq> []" using o by blast
  have lost: "x = Some ErrNotLogged" if "last tr = Exec x" for x
  proof -
    have "Exec x \<in> set tr" using last_in_set[OF ne] that by simp
    then show ?thesis by (rule withRetry_loop_trace_lost[OF assms(1) run])
  qed
  have cnt: "relogins tr = 9" if "r = Some (Wrap ErrNotLogged ErrFailedExecuteCallback)"
    using withRetry_loop_session_lost[OF assms(1) run] that
    by (auto simp: isFatalLoginErr_def)
  have bounds: "1 \<le> execs tr \<and> execs tr \<le> 10 \<and> relogins tr \<le> 10"
    using o by linarith
  from o consider
      (ok) "r = None" "last tr = Exec None"
    | (wrapped) e where "r = Some (Wrap e ErrFailedExecuteCallback)" "last tr = Exec (Some e)"
        "IsEnabled b'" "IsLoggedIn b'" "execs tr = 10"
    | (disabled) e where "r = Some ErrBotInactive" "last tr = Exec (Some e)" "\<not> IsEnabled b'"
    | (cancelled) n where "r = Some ErrBotInactive" "last tr = Sleep n"
    | (loggedout) e where "r = Some ErrBotLoggedOut" "last tr = Exec (Some e)" "IsEnabled b'"
        "\<not> IsLoggedIn b'"
    | (fatal) e where "r = Some e" "isFatalLoginErr e" "last tr = Relogin (Some e)"
    by blast
  then have cause: "r \<noteq> None \<and> r \<noteq> Some ErrNotLogged \<and>
     (r = Some (Wrap ErrNotLogged ErrFailedExecuteCallback) \<and>
        last tr = Exec (Some ErrNotLogged) \<and> IsEnabled b' \<and> IsLoggedIn b' \<and>
        execs tr = 10 \<and> relogins tr = 9 \<or>
      r = Some ErrBotInactive \<and> last tr = Exec (Some ErrNotLogged) \<and> \<not> IsEnabled b' \<or>
      (\<exists>n. r = Some ErrBotInactive \<and> last tr = Sleep n) \<or>
      r = Some ErrBotLoggedOut \<and> last tr = Exec (Some ErrNotLogged) \<and> IsEnabled b' \<and>
        \<not> IsLoggedIn b' \<or>
      (\<exists>e. r = Some e \<and> isFatalLoginErr e \<and> last tr = Relogin (Some e)))"
  proof cases
    case ok
    then show ?thesis using lost[of None] by simp
  next
    case (wrapped e)
    have e: "e = ErrNotLogged" using lost[OF wrapped(2)] by simp
    show ?thesis using wrapped e cnt by simp
  next
    case (disabled e)
    have e: "e = ErrNotLogged" using lost[OF disabled(2)] by simp
    show ?thesis using disabled e by simp
  next
    case (cancelled n)
    then show ?thesis by simp
  next
    case (loggedout e)
    have e: "e = ErrNotLogged" using lost[OF loggedout(2)] by simp
    show ?thesis using loggedout e by simp
  next
    case (fatal e)
    then show ?thesis by (auto simp: isFatalLoginErr_def)
  qed
  have und: "r = Some (Wrap ErrNotLogged ErrFailedExecuteCallback) \<and> execs tr = 10 \<and>
      relogins tr = 9"
    if "I b \<and>
      (\<forall>c b. I b \<longrightarrow> IsEnabled (snd (snd (fn c b))) \<and> IsLoggedIn (snd (snd (fn c b))) \<and>
         I (snd (snd (fn c b)))) \<and>
      (\<forall>n b. I b \<longrightarrow> \<not> fst (ctxWait E n b) \<and> I (snd (ctxWait E n b))) \<and>
      (\<forall>b. I b \<longrightarrow>
         (\<forall>e. fst (wrapLoginWithExistingCookies E b) = Some e \<longrightarrow> \<not> isFatalLoginErr e) \<and>
         I (snd (wrapLoginWithExistingCookies E b)))"
  proof -
    have i: "I b" using that by (rule conjunct1)
    have a: "\<forall>c b. I b \<longrightarrow> IsEnabled (snd (snd (fn c b))) \<and>
        IsLoggedIn (snd (snd (fn c b))) \<and> I (snd (snd (fn c b)))"
      using that by (elim conjE)
    have w: "\<forall>n b. I b \<longrightarrow> \<not> fst (ctxWait E n b) \<and> I (snd (ctxWait E n b))"
      using that by (elim conjE)
    have l: "\<forall>b. I b \<longrightarrow>
         (\<forall>e. fst (wrapLoginWithExistingCookies E b) = Some e \<longrightarrow> \<not> isFatalLoginErr e) \<and>
         I (snd (wrapLoginWithExistingCookies E b))"
      using that by (elim conjE)
    show ?thesis
      using withRetry_loop_session_lost_undisturbed[OF assms(1) a w l run i] by simp
  qed
  show ?thesis
  proof (intro conjI impI)
    show "1 \<le> execs tr" "execs tr \<le> 10" "relogins tr \<le> 10" using bounds by simp_all
    show "r \<noteq> None" "r \<noteq> Some ErrNotLogged" using cause by simp_all
    show "r = Some (Wrap ErrNotLogged ErrFailedExecuteCallback) \<and>
        last tr = Exec (Some ErrNotLogged) \<and> IsEnabled b' \<and> IsLoggedIn b' \<and>
        execs tr = 10 \<and> relogins tr = 9 \<or>
      r = Some ErrBotInactive \<and> last tr = Exec (Some ErrNotLogged) \<and> \<not> IsEnabled b' \<or>
      (\<exists>n. r = Some ErrBotInactive \<and> last tr = Sleep n) \<or>
      r = Some ErrBotLoggedOut \<and> last tr = Exec (Some ErrNotLogged) \<and> IsEnabled b' \<and>
        \<not> IsLoggedIn b' \<or>
      (\<exists>e. r = Some e \<and> isFatalLoginErr e \<and> last tr = Relogin (Some e))"
      using cause by (elim conjE)
  next
    assume h: "I b \<and>
      (\<forall>c b. I b \<longrightarrow> IsEnabled (snd (snd (fn c b))) \<and> IsLoggedIn (snd (snd (fn c b))) \<and>
         I (snd (snd (fn c b)))) \<and>
      (\<forall>n b. I b \<longrightarrow> \<not> fst (ctxWait E n b) \<and> I (snd (ctxWait E n b))) \<and>
      (\<forall>b. I b \<longrightarrow>
         (\<forall>e. fst (wrapLoginWithExistingCookies E b) = Some e \<longrightarrow> \<not> isFatalLoginErr e) \<and>
         I (snd (wrapLoginWithExistingCookies E b)))"
    show "r = Some (Wrap ErrNotLogged ErrFailedExecuteCallback)" "execs tr = 10"
      "relogins tr = 9"
      using und[OF h] by simp_all
  qed
qed

theorem withRetry_session_lost_terminal_witness:
  "(\<forall>c b. fst ((lostFn :: bytes \<Rightarrow> memo list bot \<Rightarrow> _) c b) = Some ErrNotLogged) \<and>
   withRetry (sampleEnv [] None) lostFn [] sampleBot =
     (Some (Wrap ErrNotLogged ErrFailedExecuteCallback), [], sampleBot\<lparr>isConnectedAtom := 0\<rparr>,
      fullRetryTrace) \<and>
   IsEnabled sampleBot \<and> IsLoggedIn sampleBot \<and>
   execs fullRetryTrace = 10 \<and> relogins fullRetryTrace = 9 \<and>
   last fullRetryTrace = Exec (Some ErrNotLogged)"
proof -
  have h: "\<forall>c b. fst ((lostFn :: bytes \<Rightarrow> memo list bot \<Rightarrow> _) c b) = Some ErrNotLogged"
    by (simp add: lostFn_def)
  have i: "IsEnabled sampleBot \<and> IsLoggedIn sampleBot"
    by (simp add: IsEnabled_def IsLoggedIn_def sampleBot_def)
  have a: "\<forall>c b. IsEnabled b \<and> IsLoggedIn b \<longrightarrow>
      IsEnabled (snd (snd ((lostFn :: bytes \<Rightarrow> memo list bot \<Rightarrow> _) c b))) \<and>
      IsLoggedIn (snd (snd ((lostFn :: bytes \<Rightarrow> memo list bot \<Rightarrow> _) c b))) \<and>
      (IsEnabled (snd (snd ((lostFn :: bytes \<Rightarrow> memo list bot \<Rightarrow> _) c b))) \<and>
       IsLoggedIn (snd (snd ((lostFn :: bytes \<Rightarrow> memo list bot \<Rightarrow> _) c b))))"
    by (simp add: lostFn_def IsEnabled_def IsLoggedIn_def)
  have w: "\<forall>n b. IsEnabled b \<and> IsLoggedIn b \<longrightarrow> \<not> fst (ctxWait (sampleEnv [] None) n b) \<and>
      (IsEnabled (snd (ctxWait (sampleEnv [] None) n b)) \<and>
       IsLoggedIn (snd (ctxWait (sampleEnv [] None) n b)))"
    by (simp add: sampleEnv_def)
  have l: "\<forall>b. IsEnabled b \<and> IsLoggedIn b \<longrightarrow>
      (\<forall>e. fst (wrapLoginWithExistingCookies (sampleEnv [] None) b) = Some e \<longrightarrow>
         \<not> isFatalLoginErr e) \<and>
      (IsEnabled (snd (wrapLoginWithExistingCookies (sampleEnv [] None) b)) \<and>
       IsLoggedIn (snd (wrapLoginWithExistingCookies (sampleEnv [] None) b)))"
    by (simp add: sampleEnv_def)
  have t: "Some (Wrap ErrNotLogged ErrFailedExecuteCallback) =
        Some (Wrap ErrNotLogged ErrFailedExecuteCallback) \<and>
      execs fullRetryTrace = 10 \<and> relogins fullRetryTrace = 9"
    using withRetry_session_lost_terminal[OF h sampleRun_lost[of "[]"],
        of "\<lambda>b. IsEnabled b \<and> IsLoggedIn b"] i a w l
    by blast
  have la: "last fullRetryTrace = Exec (Some ErrNotLogged)"
    by (simp add: fullRetryTrace_def)
  show ?thesis using h sampleRun_lost[of "[]"] i t la by blast
qed

text \<open>
  C2. A re-login attempt that fails with a fatal authentication error is the last thing
  the wrapper does: nothing follows it in the trace (no further execution, wait or
  re-login), and the wrapper returns exactly that error.
\<close>

theorem withRetry_fatal_login_aborts:
  assumes "withRetry E fn c b = (r, c', b', tr)"
    and "tr = pre @ Relogin (Some e) # post"
    and "isFatalLoginErr e"
  shows "post = [] \<and> r = Some e"
  using withRetry_loop_fatal_last[of E fn 10 1 c b r c' b' tr pre e post] assms
  by (simp add: withRetry_def)

theorem withRetry_fatal_login_aborts_witness:
  "withRetry (sampleEnv [] (Some ErrAccountBlocked)) lostFn [] sampleBot =
     (Some ErrAccountBlocked, [], sampleBot\<lparr>isConnectedAtom := 0\<rparr>,
      [Exec (Some ErrNotLogged), Sleep 1] @ Relogin (Some ErrAccountBlocked) # []) \<and>
   isFatalLoginErr ErrAccountBlocked \<and>
   execs ([Exec (Some ErrNotLogged), Sleep 1] @ Relogin (Some ErrAccountBlocked) # []) = 1"
proof -
  have run: "withRetry (sampleEnv [] (Some ErrAccountBlocked)) lostFn [] sampleBot =
     (Some ErrAccountBlocked, [], sampleBot\<lparr>isConnectedAtom := 0\<rparr>,
      [Exec (Some ErrNotLogged), Sleep 1] @ Relogin (Some ErrAccountBlocked) # [])"
    using sampleRun_blocked[of "[]"] by simp
  have f: "isFatalLoginErr ErrAccountBlocked" by (simp add: isFatalLoginErr_def)
  show ?thesis
    using withRetry_fatal_login_aborts[OF run refl f] run f by (simp add: execs_simps)
qed



section \<open>Properties of a page request\<close>

lemma Get_setCPParam_other:
  "key \<noteq> ''cp'' \<Longrightarrow> Get (setCPParam E b vals cfg) key = Get vals key"
  by (simp add: setCPParam_def Get_def Set_def)

lemma detectLoggedOut_allianceId:
  "Get vals ''allianceId'' \<noteq> [] \<Longrightarrow> \<not> detectLoggedOut E page vals pageHTML"
  by (simp add: detectLoggedOut_def)

lemma clb_allianceId_not_lost:
  assumes "Get vals ''allianceId'' \<noteq> []"
    and "\<forall>m u bd aj b0. fst (httpDo E m u bd aj b0) \<noteq> Inl ErrNotLogged"
    and "\<forall>m u bd aj b0 st. fst (httpDo E m u bd aj b0) \<noteq> Inr (st, Inl ErrNotLogged)"
  shows "fst (clb E method finalURL payload vals page c b) \<noteq> Some ErrNotLogged"
proof -
  obtain x b1 where h: "httpDo E method finalURL
      (if method = ''POST'' then Some (Encode E payload) else None) (IsAjaxPage (N E) vals) b = (x, b1)"
    by (cases "httpDo E method finalURL
      (if method = ''POST'' then Some (Encode E payload) else None) (IsAjaxPage (N E) vals) b")
  have a: "x \<noteq> Inl ErrNotLogged" using assms(2) h by (metis fst_conv)
  have b: "\<And>st. x \<noteq> Inr (st, Inl ErrNotLogged)" using assms(3) h by (metis fst_conv)
  show ?thesis
    using h a b detectLoggedOut_allianceId[OF assms(1)]
    by (auto simp: clb_def execRequest_def Let_def split: sum.splits prod.splits option.splits)
qed

lemma processResponseHTML_not_lost:
  "fst (processResponseHTML E method b pageHTML page payload vals) \<noteq> Some ErrNotLogged"
  by (simp add: processResponseHTML_def extractNewChatToken_def split: sum.splits)

lemma preRequestChecks_not_lost: "preRequestChecks b \<noteq> Some ErrNotLogged"
  by (simp add: preRequestChecks_def)

text \<open>What \<open>pageContent\<close> does once the three checks have passed.\<close>

lemma pageContent_run:
  assumes "pageContent E method vals payload opts b = (res, b', tr)"
    and "preRequestChecks b = None"
  obtains r c b1 where
    "retryPolicyFromConfig (getOptions opts) E
       (clb E method (constructFinalURL E b (setCPParam E b vals (getOptions opts)))
          (alterPayload method b (setCPParam E b vals (getOptions opts)) payload)
          (setCPParam E b vals (getOptions opts))
          (getPageName (N E) (setCPParam E b vals (getOptions opts)))) [] b = (r, c, b1, tr)"
    "r \<noteq> None \<Longrightarrow> res = ([], r) \<and> b' = b1"
    "r = None \<Longrightarrow>
       (case processResponseHTML E method b1 c
               (getPageName (N E) (setCPParam E b vals (getOptions opts)))
               (alterPayload method b (setCPParam E b vals (getOptions opts)) payload)
               (setCPParam E b vals (getOptions opts)) of
          (Some err, b2) \<Rightarrow> res = ([], Some err) \<and> b' = b2
        | (None, b2) \<Rightarrow> res = (c, None) \<and> b' = b2)"
proof -
  obtain r c b1 tr1 where p: "retryPolicyFromConfig (getOptions opts) E
       (clb E method (constructFinalURL E b (setCPParam E b vals (getOptions opts)))
          (alterPayload method b (setCPParam E b vals (getOptions opts)) payload)
          (setCPParam E b vals (getOptions opts))
          (getPageName (N E) (setCPParam E b vals (getOptions opts)))) [] b = (r, c, b1, tr1)"
    using prod_cases4 by blast
  show thesis
    using assms p that[of r c b1]
    by (auto simp: pageContent_def Let_def split: option.splits prod.splits)
qed


lemma pageContent_allianceId_no_relogin:
  assumes "Get vals ''allianceId'' \<noteq> []"
    and "\<forall>m u bd aj b0. fst (httpDo E m u bd aj b0) \<noteq> Inl ErrNotLogged"
    and "\<forall>m u bd aj b0 st. fst (httpDo E m u bd aj b0) \<noteq> Inr (st, Inl ErrNotLogged)"
    and "pageContent E method vals payload opts b = (res, b', tr)"
  shows "relogins tr = 0 \<and> snd res \<noteq> Some ErrNotLogged"
proof (cases "preRequestChecks b")
  case (Some err)
  then show ?thesis
    using assms(4) preRequestChecks_not_lost[of b]
    by (auto simp: pageContent_def Let_def relogins_simps)
next
  case None
  have a: "Get (setCPParam E b vals (getOptions opts)) ''allianceId'' \<noteq> []"
    using assms(1) by (simp add: Get_setCPParam_other)
  from assms(4) None show ?thesis
  proof (cases rule: pageContent_run)
    case (1 r c b1)
    let ?fn = "clb E method (constructFinalURL E b (setCPParam E b vals (getOptions opts)))
          (alterPayload method b (setCPParam E b vals (getOptions opts)) payload)
          (setCPParam E b vals (getOptions opts))
          (getPageName (N E) (setCPParam E b vals (getOptions opts)))"
    have fn: "\<forall>c0 b0. fst (?fn c0 b0) \<noteq> Some ErrNotLogged"
      using clb_allianceId_not_lost[OF a assms(2,3)] by blast
    have tr: "relogins tr = 0 \<and> r \<noteq> Some ErrNotLogged"
    proof (cases "SkipRetry (getOptions opts)")
      case True
      then have "withoutRetry E ?fn [] b = (r, c, b1, tr)"
        using 1(1) by (simp add: retryPolicyFromConfig_def)
      then show ?thesis
        using fn[rule_format, of "[]" b]
        by (auto simp: withoutRetry_def Let_def relogins_simps split: prod.splits)
    next
      case False
      then have wr: "withRetry_loop E ?fn 10 1 [] b = (r, c, b1, tr)"
        using 1(1) by (simp add: retryPolicyFromConfig_def withRetry_def)
      show ?thesis
        using withRetry_loop_no_relogin[OF fn wr] withRetry_loop_result[OF wr] by simp
    qed
    show ?thesis
    proof (cases r)
      case None
      then show ?thesis
        using 1(3) tr processResponseHTML_not_lost[of E "method" b1 c
               "getPageName (N E) (setCPParam E b vals (getOptions opts))"
               "alterPayload method b (setCPParam E b vals (getOptions opts)) payload"
               "setCPParam E b vals (getOptions opts)"]
        by (auto split: prod.splits option.splits)
    next
      case (Some e)
      then show ?thesis using 1(2) tr by simp
    qed
  qed
qed

lemma sample_isLogged: "\<not> isLogged loginPage" "isLogged overviewPage"
  by (simp_all add: isLogged_def loginPage_def overviewPage_def inClass_def)

lemma sample_overview_request:
  "getPageName sampleNames overviewVals = ''overview''"
  "IsKnowFullPage sampleNames overviewVals"
  "\<not> IsAjaxPage sampleNames overviewVals"
  "Get overviewVals ''allianceId'' = []"
  by (simp_all add: getPageName_def IsKnowFullPage_def IsAjaxPage_def Get_def overviewVals_def)

lemma sample_alliance_request:
  "getPageName sampleNames allianceVals = ''overview''"
  "IsKnowFullPage sampleNames allianceVals"
  "\<not> IsAjaxPage sampleNames allianceVals"
  "Get allianceVals ''allianceId'' = ''500''"
  "Get allianceVals ''cp'' = []"
  "\<not> IsEmpirePage allianceVals"
  by (simp_all add: getPageName_def IsKnowFullPage_def IsAjaxPage_def IsEmpirePage_def Get_def
      allianceVals_def)

lemma sample_execRequest:
  "execRequest (sampleEnv body loginRes) ''GET'' url payload vals b = ((body, None), b)"
  by (simp add: execRequest_def sampleEnv_def)

text \<open>
  C4. When the request has been executed and has given bytes, the single-request step
  \<open>clb\<close> returns the session-lost error and clears the connected flag exactly when
  \<open>detectLoggedOut\<close> holds of the bytes; otherwise it returns no error and the bytes are
  the page. For a request without \<open>allianceId\<close>, \<open>detectLoggedOut\<close> holds exactly when
  the page is not the logout page, is a known full page or has no name, is not an ajax page
  and lacks the session marker; or is the event list without \<open>eventListWrap\<close>; or is the
  eventbox or the galaxy content and does not parse.
\<close>

theorem clb_detects_session_loss:
  assumes "execRequest E method finalURL payload vals b = ((by, None), b1)"
  shows "(detectLoggedOut E page vals by \<longrightarrow>
            clb E method finalURL payload vals page c b =
              (Some ErrNotLogged, by, b1\<lparr>isConnectedAtom := 0\<rparr>) \<and>
            \<not> IsConnected (snd (snd (clb E method finalURL payload vals page c b)))) \<and>
         (\<not> detectLoggedOut E page vals by \<longrightarrow>
            clb E method finalURL payload vals page c b = (None, by, b1)) \<and>
         (Get vals ''allianceId'' = [] \<longrightarrow>
            detectLoggedOut E page vals by =
              ((page \<noteq> N E LogoutPageName \<and> (IsKnowFullPage (N E) vals \<or> page = []) \<and>
                  \<not> IsAjaxPage (N E) vals \<and> \<not> isLogged by) \<or>
               (page = N E EventListAjaxPageName \<and> \<not> Contains by ''eventListWrap'') \<or>
               (page = N E FetchEventboxAjaxPageName \<and> \<not> canParseEventBox E by) \<or>
               (page = N E GalaxyContentAjaxPageName \<and> \<not> canParseSystemInfos E by)))"
  using assms by (simp add: clb_def detectLoggedOut_def IsConnected_def)

theorem clb_detects_session_loss_witness:
  "execRequest (sampleEnv loginPage None) ''GET'' [] Map.empty overviewVals sampleBot =
     ((loginPage, None), sampleBot) \<and>
   detectLoggedOut (sampleEnv loginPage None) ''overview'' overviewVals loginPage \<and>
   clb (sampleEnv loginPage None) ''GET'' [] Map.empty overviewVals ''overview'' [] sampleBot =
     (Some ErrNotLogged, loginPage, sampleBot\<lparr>isConnectedAtom := 0\<rparr>) \<and>
   execRequest (sampleEnv overviewPage None) ''GET'' [] Map.empty overviewVals sampleBot =
     ((overviewPage, None), sampleBot) \<and>
   \<not> detectLoggedOut (sampleEnv overviewPage None) ''overview'' overviewVals overviewPage \<and>
   clb (sampleEnv overviewPage None) ''GET'' [] Map.empty overviewVals ''overview'' [] sampleBot =
     (None, overviewPage, sampleBot)"
proof -
  have d1: "detectLoggedOut (sampleEnv loginPage None) ''overview'' overviewVals loginPage"
    using sample_isLogged sample_overview_request
    by (simp add: detectLoggedOut_def sampleEnv_def)
  have d2: "\<not> detectLoggedOut (sampleEnv overviewPage None) ''overview'' overviewVals overviewPage"
    using sample_isLogged sample_overview_request
    by (simp add: detectLoggedOut_def sampleEnv_def)
  show ?thesis
    using clb_detects_session_loss[where page = "''overview''" and c = "[]",
        OF sample_execRequest[of loginPage None "[]" Map.empty overviewVals sampleBot]]
      clb_detects_session_loss[where page = "''overview''" and c = "[]",
        OF sample_execRequest[of overviewPage None "[]" Map.empty overviewVals sampleBot]]
      d1 d2 sample_execRequest
    by simp
qed

text \<open>
  C6. A page request on a disabled bot returns the bot-inactive error; on an enabled bot
  that is not logged in, the logged-out error; on an enabled, logged-in bot without server
  URL, an error of its own. In the three cases the result does not depend on the
  collaborators: the bot comes back unchanged and the trace is empty, so no request was
  made. The three errors differ from one another.
\<close>

theorem pageContent_precondition_errors:
  "(\<not> IsEnabled b \<longrightarrow>
      pageContent E method vals payload opts b = (([], Some ErrBotInactive), b, [])) \<and>
   (IsEnabled b \<and> \<not> IsLoggedIn b \<longrightarrow>
      pageContent E method vals payload opts b = (([], Some ErrBotLoggedOut), b, [])) \<and>
   (IsEnabled b \<and> IsLoggedIn b \<and> serverURL b = [] \<longrightarrow>
      pageContent E method vals payload opts b =
        (([], Some (ErrNew ''serverURL is empty'')), b, [])) \<and>
   ErrBotInactive \<noteq> ErrBotLoggedOut \<and> ErrBotInactive \<noteq> ErrNew ''serverURL is empty'' \<and>
   ErrBotLoggedOut \<noteq> ErrNew ''serverURL is empty''"
  by (simp add: pageContent_def preRequestChecks_def Let_def)

theorem pageContent_precondition_errors_witness:
  "\<not> IsEnabled (sampleBot\<lparr>isEnabledAtom := 0\<rparr>) \<and>
   pageContent (sampleEnv loginPage None) ''GET'' overviewVals Map.empty []
      (sampleBot\<lparr>isEnabledAtom := 0\<rparr>) =
     (([], Some ErrBotInactive), sampleBot\<lparr>isEnabledAtom := 0\<rparr>, []) \<and>
   IsEnabled (sampleBot\<lparr>isLoggedInAtom := 0\<rparr>) \<and> \<not> IsLoggedIn (sampleBot\<lparr>isLoggedInAtom := 0\<rparr>) \<and>
   pageContent (sampleEnv loginPage None) ''GET'' overviewVals Map.empty []
      (sampleBot\<lparr>isLoggedInAtom := 0\<rparr>) =
     (([], Some ErrBotLoggedOut), sampleBot\<lparr>isLoggedInAtom := 0\<rparr>, []) \<and>
   IsEnabled (sampleBot\<lparr>serverURL := []\<rparr>) \<and> IsLoggedIn (sampleBot\<lparr>serverURL := []\<rparr>) \<and>
   pageContent (sampleEnv loginPage None) ''GET'' overviewVals Map.empty []
      (sampleBot\<lparr>serverURL := []\<rparr>) =
     (([], Some (ErrNew ''serverURL is empty'')), sampleBot\<lparr>serverURL := []\<rparr>, [])"
  using pageContent_precondition_errors[of "sampleBot\<lparr>isEnabledAtom := 0\<rparr>"
      "sampleEnv loginPage None" "''GET''" overviewVals Map.empty "[]"]
    pageContent_precondition_errors[of "sampleBot\<lparr>isLoggedInAtom := 0\<rparr>"
      "sampleEnv loginPage None" "''GET''" overviewVals Map.empty "[]"]
    pageContent_precondition_errors[of "sampleBot\<lparr>serverURL := []\<rparr>"
      "sampleEnv loginPage None" "''GET''" overviewVals Map.empty "[]"]
  by (simp add: IsEnabled_def IsLoggedIn_def sampleBot_def)

text \<open>
  C10. A request whose \<open>allianceId\<close> parameter is not empty is never classified as logged
  out, whatever the page and the response. So, as long as the transport itself does not
  produce the session-lost value, a page request with \<open>allianceId\<close> attempts no re-login
  and does not return the session-lost error.
\<close>

theorem allianceId_never_logged_out:
  assumes "Get vals ''allianceId'' \<noteq> []"
  shows "\<not> detectLoggedOut E page vals pageHTML \<and>
     ((\<forall>m u bd aj b0. fst (httpDo E m u bd aj b0) \<noteq> Inl ErrNotLogged) \<and>
      (\<forall>m u bd aj b0 st. fst (httpDo E m u bd aj b0) \<noteq> Inr (st, Inl ErrNotLogged)) \<longrightarrow>
        relogins (snd (snd (pageContent E method vals payload opts b))) = 0 \<and>
        snd (fst (pageContent E method vals payload opts b)) \<noteq> Some ErrNotLogged)"
proof -
  obtain res b' tr where run: "pageContent E method vals payload opts b = (res, b', tr)"
    using prod_cases3 by blast
  show ?thesis
    using detectLoggedOut_allianceId[OF assms]
      pageContent_allianceId_no_relogin[OF assms _ _ run] run
    by auto
qed

theorem allianceId_never_logged_out_witness:
  "Get allianceVals ''allianceId'' = ''500'' \<and>
   \<not> isLogged loginPage \<and> IsKnowFullPage sampleNames allianceVals \<and>
   \<not> detectLoggedOut (sampleEnv loginPage None) ''overview'' allianceVals loginPage \<and>
   pageContent (sampleEnv loginPage None) ''GET'' allianceVals Map.empty [] sampleBot =
     ((loginPage, None), sampleBot, [Exec None]) \<and>
   relogins [Exec None] = 0"
proof -
  have a: "Get allianceVals ''allianceId'' \<noteq> []"
    using sample_alliance_request by simp
  have c: "clb (sampleEnv loginPage None) ''GET'' url Map.empty allianceVals ''overview'' [] sampleBot =
      (None, loginPage, sampleBot)" for url
    using detectLoggedOut_allianceId[OF a] by (simp add: clb_def sample_execRequest)
  have o: "getOptions [] = \<lparr>DebugGalaxy = False, SkipInterceptor = False, SkipRetry = False, ChangePlanet = 0\<rparr>"
    by (simp add: getOptions_def)
  have s: "setCPParam (sampleEnv loginPage None) sampleBot allianceVals (getOptions []) = allianceVals"
    by (simp add: setCPParam_def o)
  have p: "alterPayload ''GET'' sampleBot allianceVals Map.empty = Map.empty"
    by (simp add: alterPayload_def)
  have pr: "processResponseHTML (sampleEnv loginPage None) ''GET'' sampleBot loginPage ''overview''
      Map.empty allianceVals = (None, sampleBot)"
    using sample_isLogged by (simp add: processResponseHTML_def)
  have n: "N (sampleEnv loginPage None) = sampleNames"
    by (simp add: sampleEnv_def)
  have pre: "preRequestChecks sampleBot = None"
    by (simp add: preRequestChecks_def IsEnabled_def IsLoggedIn_def sampleBot_def)
  have run: "pageContent (sampleEnv loginPage None) ''GET'' allianceVals Map.empty [] sampleBot =
     ((loginPage, None), sampleBot, [Exec None])"
    unfolding pageContent_def Let_def s p pre n sample_alliance_request
    by (simp add: retryPolicyFromConfig_def o withRetry_def withRetry_loop.simps c pr)
  show ?thesis
    using allianceId_never_logged_out[OF a, of "sampleEnv loginPage None" "''overview''" loginPage
        "''GET''" Map.empty "[]" sampleBot]
      run sample_isLogged sample_alliance_request
    by (simp add: relogins_simps)
qed

section \<open>The session-lost error and the caller\<close>












section \<open>The lock state and its observers\<close>

lemma botLock_consistent:
  "lockConsistent b \<Longrightarrow> botLock actor b = Inr b' \<Longrightarrow> lockConsistent b'"
  by (auto simp: botLock_def lockConsistent_def stateChanged_def Let_def split: if_splits)

lemma botUnlock_consistent:
  "lockConsistent b \<Longrightarrow> botUnlock actor b = Inr b' \<Longrightarrow> lockConsistent b'"
  by (auto simp: botUnlock_def lockConsistent_def stateChanged_def Let_def split: if_splits)








section \<open>Properties of the event stream\<close>

lemma Trim_id:
  assumes "s \<noteq> []" "hd s \<notin> set cutset" "last s \<notin> set cutset"
  shows "Trim s cutset = s"
proof -
  have a: "dropWhile (\<lambda>c. c \<in> set cutset) s = s"
    using assms(1,2) by (cases s) simp_all
  have "hd (rev s) \<notin> set cutset" using assms(1,3) by (simp add: hd_rev)
  moreover have "rev s \<noteq> []" using assms(1) by simp
  ultimately have b: "dropWhile (\<lambda>c. c \<in> set cutset) (rev s) = rev s"
    by (cases "rev s") simp_all
  show ?thesis by (simp add: Trim_def a b)
qed

lemma toInt64_of_int: "isInt64 n \<Longrightarrow> toInt64 E (of_int n) = n"
  by (simp add: toInt64_def isInt64_def Let_def)

lemma wellFormedNewBid_cases:
  assumes "wellFormedNewBid arg bsum price bids aid pid pname plink"
  obtains firstArg p where "arg = JObj firstArg"
    "jget firstArg ''sum'' = JNum (of_int bsum)" "isInt64 bsum"
    "jget firstArg ''price'' = JNum (of_int price)" "isInt64 price"
    "jget firstArg ''bids'' = JNum (of_int bids)" "isInt64 bids"
    "jget firstArg ''auctionId'' = JStr aid"
    "jget firstArg ''player'' = JObj p"
    "jget p ''id'' = JNum (of_int pid)" "isInt64 pid"
    "jget p ''name'' = JStr pname" "jget p ''link'' = JStr plink"
proof (cases arg)
  case (JObj firstArg)
  show ?thesis
  proof (cases "jget firstArg ''player''")
    case (JObj p)
    show ?thesis
      using assms \<open>arg = JObj firstArg\<close> JObj that[of firstArg p]
      by (simp add: wellFormedNewBid_def)
  qed (use assms \<open>arg = JObj firstArg\<close> in \<open>simp_all add: wellFormedNewBid_def\<close>)
qed (use assms in \<open>simp_all add: wellFormedNewBid_def\<close>)

lemma packetFor_new_bid:
  assumes "wellFormedNewBid arg bsum price bids aid pid pname plink"
  shows "packetFor E ''new bid'' arg pck =
     AuctioneerNewBid bsum price bids (DoParseI64 E aid) (Player pid pname plink)"
  using assms
proof (cases rule: wellFormedNewBid_cases)
  case (1 firstArg p)
  have pl: "castPlayer E (JObj p) = Player pid pname plink"
    using 1 by (simp add: castPlayer_def doCastF64_def doCastStr_def toInt64_of_int)
  show ?thesis
    unfolding packetFor_def
    using 1 pl by (simp add: doCastF64_def doCastStr_def toInt64_of_int)
qed

subsection \<open>The legacy dialect\<close>

lemma handleFrameV7_subscribe:
  "handleFrameV7 E ''1::'' b = writeWS ''1::/auctioneer'' (writeWS ''1::/chat'' b)"
  by (simp add: handleFrameV7_def Trim_def)

lemma handleFrameV7_authorize:
  \<open>handleFrameV7 E ''1::/chat'' b =
     (writeWS (''5:'' @ FI64 E (sessionChatCounter b) @
               ''+:/chat:{"name":"authorize","args":["'' @ ogameSession b @ ''"]}'') b)
       \<lparr>sessionChatCounter := wrap64 (sessionChatCounter b + 1)\<rparr>\<close>
  by (simp add: handleFrameV7_def Trim_def)

lemma handleFrameV7_auctioneer_ack:
  "ws (handleFrameV7 E ''1::/auctioneer'' b) = ws b"
  "sessionChatCounter (handleFrameV7 E ''1::/auctioneer'' b) = sessionChatCounter b"
  by (simp_all add: handleFrameV7_def Trim_def Let_def inClass_def dispatchAuctioneer_def)

lemma handleFrameV7_auctioneer_branch:
  assumes "Trim frame [CHR 0x00] = frame"
    and "frame \<noteq> ''1::''" "frame \<noteq> ''1::/chat''" "frame \<noteq> ''2::''"
    and "matchAnywhere [Plus Digit, Lit ''::/auctioneer''] frame"
    and "TrimPrefix frame ''5::/auctioneer:'' = payload"
    and "jsonUnmarshal E payload = Some (JObj out)"
    and "jget out ''name'' = JStr name"
    and "jget out ''args'' = JArr (arg # rest)"
  shows "handleFrameV7 E frame b =
     dispatchAuctioneer (packetFor E name arg (PckString payload)) b"
  using assms by (simp add: handleFrameV7_def Let_def)

lemma auctioneer_frame_V7:
  assumes "CHR 0x00 \<notin> set payload"
  shows "Trim (''5::/auctioneer:'' @ payload) [CHR 0x00] = ''5::/auctioneer:'' @ payload"
    and "''5::/auctioneer:'' @ payload \<noteq> ''1::''"
    and "''5::/auctioneer:'' @ payload \<noteq> ''1::/chat''"
    and "''5::/auctioneer:'' @ payload \<noteq> ''2::''"
    and "matchAnywhere [Plus Digit, Lit ''::/auctioneer''] (''5::/auctioneer:'' @ payload)"
    and "TrimPrefix (''5::/auctioneer:'' @ payload) ''5::/auctioneer:'' = payload"
proof -
  have l: "last (''5::/auctioneer:'' @ payload) \<noteq> CHR 0x00"
  proof (cases "payload = []")
    case True
    then show ?thesis by simp
  next
    case False
    then have "last payload \<in> set payload" by (rule last_in_set)
    then have "last payload \<noteq> CHR 0x00" using assms by metis
    then show ?thesis using False by (simp add: last_append)
  qed
  show "Trim (''5::/auctioneer:'' @ payload) [CHR 0x00] = ''5::/auctioneer:'' @ payload"
    by (rule Trim_id) (use l in simp_all)
  show "''5::/auctioneer:'' @ payload \<noteq> ''1::''" by simp
  show "''5::/auctioneer:'' @ payload \<noteq> ''1::/chat''" by simp
  show "''5::/auctioneer:'' @ payload \<noteq> ''2::''" by simp
  show "matchAnywhere [Plus Digit, Lit ''::/auctioneer''] (''5::/auctioneer:'' @ payload)"
    by (simp add: inClass_def)
  have "TrimPrefix (p @ payload) p = payload" for p :: string
    by (simp add: TrimPrefix_def)
  then show "TrimPrefix (''5::/auctioneer:'' @ payload) ''5::/auctioneer:'' = payload" .
qed

text \<open>
  The legacy dialect: a frame \<open>5::/auctioneer:\<close> followed by a payload that decodes to a
  "new bid" event with a well-formed first argument gives every registered observer, once
  and in the order of registration, the \<open>AuctioneerNewBid\<close> packet with the values of the
  payload.
\<close>

lemma handleFrameV7_new_bid:
  assumes "CHR 0x00 \<notin> set payload"
    and "jsonUnmarshal E payload = Some (JObj out)"
    and "jget out ''name'' = JStr ''new bid''"
    and "jget out ''args'' = JArr (arg # rest)"
    and "wellFormedNewBid arg bsum price bids aid pid pname plink"
  shows "handleFrameV7 E (''5::/auctioneer:'' @ payload) b =
     dispatchAuctioneer
       (AuctioneerNewBid bsum price bids (DoParseI64 E aid) (Player pid pname plink)) b"
proof -
  have "handleFrameV7 E (''5::/auctioneer:'' @ payload) b =
      dispatchAuctioneer (packetFor E ''new bid'' arg (PckString payload)) b"
    by (rule handleFrameV7_auctioneer_branch[OF auctioneer_frame_V7[OF assms(1)] assms(2,3,4)])
  then show ?thesis by (simp only: packetFor_new_bid[OF assms(5)])
qed

text \<open>
  C8. The legacy reader on the frames \<open>1::\<close>, \<open>1::/chat\<close>, \<open>1::/auctioneer\<close>: after
  \<open>1::\<close> it has written the two subscription frames and nothing else; after \<open>1::/chat\<close>
  it has written, third, the frame that authorizes the chat with the session; after
  \<open>1::/auctioneer\<close> it has written nothing more. So exactly one authorize frame is
  written, in answer to \<open>1::/chat\<close>.
\<close>

theorem readLoopV7_authorizes_once:
  \<open>ws (readLoopV7 E [Recv ''1::''] b) = ws b @ [''1::/chat'', ''1::/auctioneer''] \<and>
   ws (readLoopV7 E [Recv ''1::'', Recv ''1::/chat''] b) =
     ws b @ [''1::/chat'', ''1::/auctioneer'',
             ''5:'' @ FI64 E (sessionChatCounter b) @
               ''+:/chat:{"name":"authorize","args":["'' @ ogameSession b @ ''"]}''] \<and>
   ws (readLoopV7 E [Recv ''1::'', Recv ''1::/chat'', Recv ''1::/auctioneer''] b) =
     ws b @ [''1::/chat'', ''1::/auctioneer'',
             ''5:'' @ FI64 E (sessionChatCounter b) @
               ''+:/chat:{"name":"authorize","args":["'' @ ogameSession b @ ''"]}''] \<and>
   sessionChatCounter (readLoopV7 E [Recv ''1::'', Recv ''1::/chat'', Recv ''1::/auctioneer''] b) =
     wrap64 (sessionChatCounter b + 1)\<close>
  by (simp add: handleFrameV7_subscribe handleFrameV7_authorize handleFrameV7_auctioneer_ack
      writeWS_def)

lemma sampleFI64_one: "sampleFI64 1 = ''1''"
  by code_simp

theorem readLoopV7_authorizes_once_witness:
  "ws (readLoopV7 (sampleEnv [] None) [Recv ''1::''] sampleBot) =
     [''1::/chat'', ''1::/auctioneer''] \<and>
   ws (readLoopV7 (sampleEnv [] None) [Recv ''1::'', Recv ''1::/chat'', Recv ''1::/auctioneer'']
         sampleBot) =
     [''1::/chat'', ''1::/auctioneer'', sampleAuthorizeV7] \<and>
   length (filter (\<lambda>frame. Contains frame ''authorize'')
     [''1::/chat'', ''1::/auctioneer'', sampleAuthorizeV7]) = 1"
proof -
  have f: "FI64 (sampleEnv [] None) (sessionChatCounter sampleBot) = ''1''"
    by (simp add: sampleEnv_def sampleBot_def sampleFI64_one)
  have s: "ogameSession sampleBot = ''abc123''" "ws sampleBot = []"
    by (simp_all add: sampleBot_def)
  have c: "length (filter (\<lambda>frame. Contains frame ''authorize'')
     [''1::/chat'', ''1::/auctioneer'', sampleAuthorizeV7]) = 1"
    by (simp add: Contains_def sampleAuthorizeV7_def)
  show ?thesis
    using readLoopV7_authorizes_once[of "sampleEnv [] None" sampleBot] c
    unfolding f s
    by (simp add: sampleAuthorizeV7_def)
qed

subsection \<open>The current dialect\<close>

lemma handleFrameV8_auctioneer_branch:
  assumes "buf \<noteq> ''3probe''" "buf \<noteq> ''2''"
    and \<open>\<not> matchAnywhere [Lit ''40/auctioneer,{"sid":"'', Plus NotQuote, Lit ''"}''] buf\<close>
    and \<open>\<not> matchAnywhere [Lit ''40/chat,{"sid":"'', Plus NotQuote, Lit ''"}''] buf\<close>
    and "\<not> matchAnywhere [Lit ''43/chat,'', Plus Digit, Lit ''[true]''] buf"
    and "\<not> matchAnywhere [Lit ''43/chat,'', Plus Digit, Lit ''[false]''] buf"
    and \<open>\<not> HasPrefix buf ''42/chat,["chat",''\<close>
    and "matchHere [Plus Digit, Lit ''/auctioneer''] buf"
    and "afterComma buf = Some payload"
    and "jsonUnmarshal E payload = Some (JArr (JStr name # arg # rest))"
  shows "handleFrameV8 E buf b =
     Inr (dispatchAuctioneer (packetFor E name arg (PckString payload)) b)"
  using assms by (simp add: handleFrameV8_def Let_def)

lemma auctioneer_frame_V8:
  "''42/auctioneer,'' @ payload \<noteq> ''3probe''"
  "''42/auctioneer,'' @ payload \<noteq> ''2''"
  \<open>\<not> HasPrefix (''42/auctioneer,'' @ payload) ''42/chat,["chat",''\<close>
  "matchHere [Plus Digit, Lit ''/auctioneer''] (''42/auctioneer,'' @ payload)"
  "afterComma (''42/auctioneer,'' @ payload) = Some payload"
  by (simp_all add: HasPrefix_def inClass_def afterComma_def)

text \<open>
  The current dialect: a frame \<open>42/auctioneer,\<close> followed by a payload that decodes to a
  "new bid" event with a well-formed argument gives every registered observer the
  \<open>AuctioneerNewBid\<close> packet with the values of the payload, provided that the frame
  matches none of the four patterns that the reader tries before.
\<close>

lemma handleFrameV8_new_bid:
  assumes \<open>\<not> matchAnywhere [Lit ''40/auctioneer,{"sid":"'', Plus NotQuote, Lit ''"}'']
              (''42/auctioneer,'' @ payload)\<close>
    and \<open>\<not> matchAnywhere [Lit ''40/chat,{"sid":"'', Plus NotQuote, Lit ''"}'']
              (''42/auctioneer,'' @ payload)\<close>
    and "\<not> matchAnywhere [Lit ''43/chat,'', Plus Digit, Lit ''[true]'']
              (''42/auctioneer,'' @ payload)"
    and "\<not> matchAnywhere [Lit ''43/chat,'', Plus Digit, Lit ''[false]'']
              (''42/auctioneer,'' @ payload)"
    and "jsonUnmarshal E payload = Some (JArr (JStr ''new bid'' # arg # rest))"
    and "wellFormedNewBid arg bsum price bids aid pid pname plink"
  shows "handleFrameV8 E (''42/auctioneer,'' @ payload) b =
     Inr (dispatchAuctioneer
       (AuctioneerNewBid bsum price bids (DoParseI64 E aid) (Player pid pname plink)) b)"
proof -
  have "handleFrameV8 E (''42/auctioneer,'' @ payload) b =
      Inr (dispatchAuctioneer (packetFor E ''new bid'' arg (PckString payload)) b)"
    by (rule handleFrameV8_auctioneer_branch[OF auctioneer_frame_V8(1,2) assms(1,2,3,4)
          auctioneer_frame_V8(3,4,5) assms(5)])
  then show ?thesis by (simp only: packetFor_new_bid[OF assms(6)])
qed

subsection \<open>New bids on the sample frames\<close>

lemma sampleParseI64_ids: "sampleParseI64 ''13355'' = 13355" "sampleParseI64 ''42894'' = 42894"
  by code_simp+

lemma sample_bidObject_wellFormed:
  "wellFormedNewBid (bidObject plink (of_int pid) pname (of_int bsum) (of_int price) (of_int bids) aid)
     bsum price bids aid pid pname plink \<longleftrightarrow>
   isInt64 bsum \<and> isInt64 price \<and> isInt64 bids \<and> isInt64 pid"
  by (auto simp: wellFormedNewBid_def bidObject_def jget_def)

lemma sample_handleFrameV7_new_bid:
  "handleFrameV7 (sampleEnv [] None) (''5::/auctioneer:'' @ bidPayloadV7) sampleBot =
     sampleBot\<lparr>world :=
       [PacketNote 0 (AuctioneerNewBid 2000 3000 2 13355
                        (Player 106734 ''Someone'' ''https://s152-en/galaxy'')),
        PacketNote 1 (AuctioneerNewBid 2000 3000 2 13355
                        (Player 106734 ''Someone'' ''https://s152-en/galaxy''))]\<rparr>"
proof -
  have n: "CHR 0x00 \<notin> set bidPayloadV7" by (simp add: bidPayloadV7_def)
  have j: "jsonUnmarshal (sampleEnv [] None) bidPayloadV7 =
      Some (JObj [(''name'', JStr ''new bid''),
                  (''args'', JArr [bidObject ''https://s152-en/galaxy'' 106734 ''Someone''
                                     2000 3000 2 ''13355''])])"
    by (simp add: sampleEnv_def sampleJson_def)
  have w: "wellFormedNewBid
      (bidObject ''https://s152-en/galaxy'' 106734 ''Someone'' 2000 3000 2 ''13355'')
      2000 3000 2 ''13355'' 106734 ''Someone'' ''https://s152-en/galaxy''"
    using sample_bidObject_wellFormed[of "''https://s152-en/galaxy''" 106734 "''Someone''"
        2000 3000 2 "''13355''"]
    by (simp add: isInt64_def)
  have d: "DoParseI64 (sampleEnv [] None) ''13355'' = 13355"
    by (simp add: sampleEnv_def sampleParseI64_ids)
  have h: "handleFrameV7 (sampleEnv [] None) (''5::/auctioneer:'' @ bidPayloadV7) sampleBot =
      dispatchAuctioneer
        (AuctioneerNewBid 2000 3000 2 (DoParseI64 (sampleEnv [] None) ''13355'')
           (Player 106734 ''Someone'' ''https://s152-en/galaxy'')) sampleBot"
    by (rule handleFrameV7_new_bid[OF n j _ _ w]) (simp_all add: jget_def)
  show ?thesis
    unfolding h d by (simp add: dispatchAuctioneer_def sampleBot_def packetObserver_def)
qed

lemma sample_handleFrameV8_new_bid:
  "handleFrameV8 (sampleEnv [] None) (''42/auctioneer,'' @ bidPayloadV8) sampleBot =
     Inr (sampleBot\<lparr>world :=
       [PacketNote 0 (AuctioneerNewBid 5000 6000 5 42894
                        (Player 219657 ''Payback'' ''https://s129-en/galaxy'')),
        PacketNote 1 (AuctioneerNewBid 5000 6000 5 42894
                        (Player 219657 ''Payback'' ''https://s129-en/galaxy''))]\<rparr>)"
proof -
  have m: \<open>\<not> matchAnywhere [Lit ''40/auctioneer,{"sid":"'', Plus NotQuote, Lit ''"}'']
              (''42/auctioneer,'' @ bidPayloadV8)\<close>
    \<open>\<not> matchAnywhere [Lit ''40/chat,{"sid":"'', Plus NotQuote, Lit ''"}'']
              (''42/auctioneer,'' @ bidPayloadV8)\<close>
    "\<not> matchAnywhere [Lit ''43/chat,'', Plus Digit, Lit ''[true]'']
              (''42/auctioneer,'' @ bidPayloadV8)"
    "\<not> matchAnywhere [Lit ''43/chat,'', Plus Digit, Lit ''[false]'']
              (''42/auctioneer,'' @ bidPayloadV8)"
    by code_simp+
  have j: "jsonUnmarshal (sampleEnv [] None) bidPayloadV8 =
      Some (JArr (JStr ''new bid'' #
              bidObject ''https://s129-en/galaxy'' 219657 ''Payback'' 5000 6000 5 ''42894'' # []))"
    by (simp add: sampleEnv_def sampleJson_def bidPayloadV7_def bidPayloadV8_def)
  have w: "wellFormedNewBid
      (bidObject ''https://s129-en/galaxy'' 219657 ''Payback'' 5000 6000 5 ''42894'')
      5000 6000 5 ''42894'' 219657 ''Payback'' ''https://s129-en/galaxy''"
    using sample_bidObject_wellFormed[of "''https://s129-en/galaxy''" 219657 "''Payback''"
        5000 6000 5 "''42894''"]
    by (simp add: isInt64_def)
  have d: "DoParseI64 (sampleEnv [] None) ''42894'' = 42894"
    by (simp add: sampleEnv_def sampleParseI64_ids)
  have h: "handleFrameV8 (sampleEnv [] None) (''42/auctioneer,'' @ bidPayloadV8) sampleBot =
      Inr (dispatchAuctioneer
        (AuctioneerNewBid 5000 6000 5 (DoParseI64 (sampleEnv [] None) ''42894'')
           (Player 219657 ''Payback'' ''https://s129-en/galaxy'')) sampleBot)"
    by (rule handleFrameV8_new_bid[OF m j w])
  show ?thesis
    unfolding h d by (simp add: dispatchAuctioneer_def sampleBot_def packetObserver_def)
qed

lemma hostileFrameV8_matches:
  "hostileFrameV8 \<noteq> ''3probe''" "hostileFrameV8 \<noteq> ''2''"
  \<open>\<not> matchAnywhere [Lit ''40/auctioneer,{"sid":"'', Plus NotQuote, Lit ''"}''] hostileFrameV8\<close>
  \<open>\<not> matchAnywhere [Lit ''40/chat,{"sid":"'', Plus NotQuote, Lit ''"}''] hostileFrameV8\<close>
  "matchAnywhere [Lit ''43/chat,'', Plus Digit, Lit ''[true]''] hostileFrameV8"
  by code_simp+

lemma hostileFrameV8_swallowed: "handleFrameV8 E hostileFrameV8 b = Inr b"
  by (simp add: handleFrameV8_def hostileFrameV8_matches)

text \<open>
  C9 holds of the legacy dialect (\<open>handleFrameV7_new_bid\<close>), and of the current dialect
  for the frames that match none of the patterns tried before the auctioneer branch
  (\<open>handleFrameV8_new_bid\<close>). It fails on the current dialect for a "new bid" frame whose
  text contains what one of those patterns looks for. Here the name of the bidding player
  is \<open>43/chat,1[true]\<close>: the payload is well formed and decodes to a "new bid" event, but
  the reader takes the frame for the acknowledgement of the chat authorization and
  dispatches nothing: the bot, and with it the world of the two registered observers, is
  unchanged.
\<close>

theorem handleFrameV8_new_bid_swallowed:
  "jsonUnmarshal (sampleEnv [] None) hostilePayloadV8 =
     Some (JArr [JStr ''new bid'',
                 bidObject ''https://s129-en/galaxy'' 219657 ''43/chat,1[true]'' 5000 6000 5
                   ''42894'']) \<and>
   wellFormedNewBid
     (bidObject ''https://s129-en/galaxy'' 219657 ''43/chat,1[true]'' 5000 6000 5 ''42894'')
     5000 6000 5 ''42894'' 219657 ''43/chat,1[true]'' ''https://s129-en/galaxy'' \<and>
   hostileFrameV8 = ''42/auctioneer,'' @ hostilePayloadV8 \<and>
   matchAnywhere [Lit ''43/chat,'', Plus Digit, Lit ''[true]''] hostileFrameV8 \<and>
   handleFrameV8 E hostileFrameV8 b = Inr b \<and>
   handleFrameV8 (sampleEnv [] None) hostileFrameV8 sampleBot = Inr sampleBot \<and>
   auctioneerCallbacks sampleBot = [packetObserver 0, packetObserver 1] \<and>
   world sampleBot = []"
proof -
  have j: "jsonUnmarshal (sampleEnv [] None) hostilePayloadV8 =
     Some (JArr [JStr ''new bid'',
                 bidObject ''https://s129-en/galaxy'' 219657 ''43/chat,1[true]'' 5000 6000 5
                   ''42894''])"
    by (simp add: sampleEnv_def sampleJson_def hostilePayloadV8_def bidPayloadV7_def
        bidPayloadV8_def)
  have w: "wellFormedNewBid
     (bidObject ''https://s129-en/galaxy'' 219657 ''43/chat,1[true]'' 5000 6000 5 ''42894'')
     5000 6000 5 ''42894'' 219657 ''43/chat,1[true]'' ''https://s129-en/galaxy''"
    using sample_bidObject_wellFormed[of "''https://s129-en/galaxy''" 219657
        "''43/chat,1[true]''" 5000 6000 5 "''42894''"]
    by (simp add: isInt64_def)
  have m: "matchAnywhere [Lit ''43/chat,'', Plus Digit, Lit ''[true]''] hostileFrameV8"
    by (rule hostileFrameV8_matches)
  have s: "auctioneerCallbacks sampleBot = [packetObserver 0, packetObserver 1]"
    "world sampleBot = []"
    by (simp_all add: sampleBot_def)
  have d: "hostileFrameV8 = ''42/auctioneer,'' @ hostilePayloadV8"
    by (simp add: hostileFrameV8_def)
  have g: "handleFrameV8 E hostileFrameV8 b = Inr b"
    by (rule hostileFrameV8_swallowed)
  have c: "handleFrameV8 (sampleEnv [] None) hostileFrameV8 sampleBot = Inr sampleBot"
    by (rule hostileFrameV8_swallowed)
  show ?thesis
    by (intro conjI) (rule j w d m g c s)+
qed

end
